theory Spec2Isabelle
  imports Main "HOL-Library.Sublist"
begin

section \<open>The provenance graph builder\<close>

text \<open>
  \<^verbatim>\<open>load\<close> hands \<^verbatim>\<open>_build_assay_graph\<close> a list of Process objects. The builder only
  reads four attributes of a process (\<^verbatim>\<open>inputs\<close>, \<^verbatim>\<open>outputs\<close>, \<^verbatim>\<open>prev_process\<close>,
  \<^verbatim>\<open>next_process\<close>) and uses the objects themselves as graph nodes, so what matters is
  object identity. An object is modelled by a reference (a number standing for its
  identity) tagged with its class; the Process objects live in a store that maps a
  reference to the attributes of the object.

  Inputs and outputs of a process are the objects that \<^verbatim>\<open>load\<close> takes from the sources,
  samples, other-materials and data-file dictionaries, hence values of type \<open>material\<close>.
\<close>

type_synonym ref = nat

datatype material = Source ref | Sample ref | Material ref | DataFile ref

datatype node = Mat material | Proc ref

record process =
  inputs :: "material list"
  outputs :: "material list"
  prev_process :: "ref option"
  next_process :: "ref option"

type_synonym store = "ref \<Rightarrow> process"

text \<open>\<^verbatim>\<open>isinstance(n, DataFile)\<close>\<close>

fun isinstance_DataFile :: "material \<Rightarrow> bool" where
  "isinstance_DataFile (DataFile _) = True"
| "isinstance_DataFile _ = False"

text \<open>
  A networkx \<^verbatim>\<open>DiGraph\<close>: a set of nodes and a set of directed edges. \<^verbatim>\<open>add_edge(u, v)\<close>
  adds both end points to the nodes and the pair to the edges; adding an edge twice
  changes nothing.
\<close>

record digraph =
  nodes :: "node set"
  edges :: "(node \<times> node) set"

definition DiGraph :: digraph where
  "DiGraph = \<lparr>nodes = {}, edges = {}\<rparr>"

definition add_edge :: "node \<Rightarrow> node \<Rightarrow> digraph \<Rightarrow> digraph" where
  "add_edge u v G = \<lparr>nodes = insert u (insert v (nodes G)), edges = insert (u, v) (edges G)\<rparr>"

text \<open>
  The body of the loop of \<^verbatim>\<open>_build_assay_graph\<close> for the process at reference \<open>r\<close>:
  first the output side, then the input side. In both \<^verbatim>\<open>else\<close> branches the enclosing
  test guarantees that the neighbouring process is not \<^verbatim>\<open>None\<close>; the \<open>None\<close> cases of the
  model are therefore never reached.
\<close>

definition connect_outputs :: "store \<Rightarrow> ref \<Rightarrow> digraph \<Rightarrow> digraph" where
  "connect_outputs h r G =
     (if next_process (h r) \<noteq> None \<or> length (outputs (h r)) > 0 then
        if length (outputs (h r)) > 0 then
          fold (\<lambda>output G'. add_edge (Proc r) (Mat output) G')
               (filter (\<lambda>n. \<not> isinstance_DataFile n) (outputs (h r))) G
        else (case next_process (h r) of
                Some n \<Rightarrow> add_edge (Proc r) (Proc n) G
              | None \<Rightarrow> G)
      else G)"

definition connect_inputs :: "store \<Rightarrow> ref \<Rightarrow> digraph \<Rightarrow> digraph" where
  "connect_inputs h r G =
     (if prev_process (h r) \<noteq> None \<or> length (inputs (h r)) > 0 then
        if length (inputs (h r)) > 0 then
          fold (\<lambda>input G'. add_edge (Mat input) (Proc r) G') (inputs (h r)) G
        else (case prev_process (h r) of
                Some p \<Rightarrow> add_edge (Proc p) (Proc r) G
              | None \<Rightarrow> G)
      else G)"

definition build_assay_graph :: "store \<Rightarrow> ref list \<Rightarrow> digraph" where
  "build_assay_graph h process_sequence =
     fold (\<lambda>r G. connect_inputs h r (connect_outputs h r G)) process_sequence DiGraph"

text \<open>
  Two small process sequences used below. In \<open>chain_store\<close>, process 1 produces
  sample 2 and names process 2 as its next process; process 2 declares no inputs and
  names process 1 as its previous process. In \<open>data_store\<close>, process 1 (a data
  transformation of an assay) reads data file 7 and writes data file 8.
\<close>

definition no_process :: process where
  "no_process = \<lparr>inputs = [], outputs = [], prev_process = None, next_process = None\<rparr>"

definition chain_store :: store where
  "chain_store = (\<lambda>_. no_process)
     (1 := \<lparr>inputs = [], outputs = [Sample 2], prev_process = None, next_process = Some 2\<rparr>,
      2 := \<lparr>inputs = [], outputs = [], prev_process = Some 1, next_process = None\<rparr>)"

definition data_store :: store where
  "data_store = (\<lambda>_. no_process)
     (1 := \<lparr>inputs = [DataFile 7], outputs = [DataFile 8], prev_process = None,
            next_process = None\<rparr>)"

subsection \<open>The edges and nodes of the graph\<close>

lemma edges_fold_out:
  "edges (fold (\<lambda>output G'. add_edge u (Mat output) G') ms G) =
     edges G \<union> {(u, Mat m) | m. m \<in> set ms}"
  by (induction ms arbitrary: G) (auto simp: add_edge_def)

lemma edges_fold_in:
  "edges (fold (\<lambda>input G'. add_edge (Mat input) v G') ms G) =
     edges G \<union> {(Mat m, v) | m. m \<in> set ms}"
  by (induction ms arbitrary: G) (auto simp: add_edge_def)

text \<open>The edges one process contributes from its output side and from its input side.\<close>

definition out_edges :: "store \<Rightarrow> ref \<Rightarrow> (node \<times> node) set" where
  "out_edges h r =
     (if outputs (h r) \<noteq> [] then
        {(Proc r, Mat m) | m. m \<in> set (outputs (h r)) \<and> \<not> isinstance_DataFile m}
      else {(Proc r, Proc n) | n. next_process (h r) = Some n})"

definition in_edges :: "store \<Rightarrow> ref \<Rightarrow> (node \<times> node) set" where
  "in_edges h r =
     (if inputs (h r) \<noteq> [] then {(Mat m, Proc r) | m. m \<in> set (inputs (h r))}
      else {(Proc p, Proc r) | p. prev_process (h r) = Some p})"

lemma edges_connect_outputs: "edges (connect_outputs h r G) = edges G \<union> out_edges h r"
  by (auto simp: connect_outputs_def out_edges_def edges_fold_out add_edge_def
           split: option.splits)

lemma edges_connect_inputs: "edges (connect_inputs h r G) = edges G \<union> in_edges h r"
  by (auto simp: connect_inputs_def in_edges_def edges_fold_in add_edge_def
           split: option.splits)

lemma edges_fold_step:
  "edges (fold (\<lambda>r G. connect_inputs h r (connect_outputs h r G)) ps G) =
     edges G \<union> (\<Union>r \<in> set ps. out_edges h r \<union> in_edges h r)"
  by (induction ps arbitrary: G) (auto simp: edges_connect_outputs edges_connect_inputs)

lemma edges_build:
  "edges (build_assay_graph h ps) = (\<Union>r \<in> set ps. out_edges h r \<union> in_edges h r)"
  by (simp add: build_assay_graph_def edges_fold_step DiGraph_def)

text \<open>Every node of the graph is an end point of one of its edges.\<close>

lemma nodes_add_edge_inv:
  "nodes G = fst ` edges G \<union> snd ` edges G \<Longrightarrow>
   nodes (add_edge u v G) = fst ` edges (add_edge u v G) \<union> snd ` edges (add_edge u v G)"
  by (auto simp: add_edge_def)

lemma nodes_fold_add_inv:
  "nodes G = fst ` edges G \<union> snd ` edges G \<Longrightarrow>
   nodes (fold (\<lambda>x G'. add_edge (f x) (g x) G') xs G) =
     fst ` edges (fold (\<lambda>x G'. add_edge (f x) (g x) G') xs G) \<union>
     snd ` edges (fold (\<lambda>x G'. add_edge (f x) (g x) G') xs G)"
proof (induction xs arbitrary: G)
  case Nil
  then show ?case by simp
next
  case (Cons x xs)
  show ?case
    unfolding fold_simps
    by (rule Cons.IH) (rule nodes_add_edge_inv [OF Cons.prems])
qed

lemma nodes_connect_outputs_inv:
  assumes "nodes G = fst ` edges G \<union> snd ` edges G"
  shows "nodes (connect_outputs h r G) =
           fst ` edges (connect_outputs h r G) \<union> snd ` edges (connect_outputs h r G)"
proof -
  have a: "nodes (fold (\<lambda>x G'. add_edge (Proc r) (Mat x) G') xs G) =
           fst ` edges (fold (\<lambda>x G'. add_edge (Proc r) (Mat x) G') xs G) \<union>
           snd ` edges (fold (\<lambda>x G'. add_edge (Proc r) (Mat x) G') xs G)" for xs
    using nodes_fold_add_inv [OF assms, of "\<lambda>_. Proc r" Mat xs] by simp
  show ?thesis
    unfolding connect_outputs_def
    using a assms nodes_add_edge_inv [OF assms]
    by (simp split: option.splits)
qed

lemma nodes_connect_inputs_inv:
  assumes "nodes G = fst ` edges G \<union> snd ` edges G"
  shows "nodes (connect_inputs h r G) =
           fst ` edges (connect_inputs h r G) \<union> snd ` edges (connect_inputs h r G)"
proof -
  have a: "nodes (fold (\<lambda>x G'. add_edge (Mat x) (Proc r) G') xs G) =
           fst ` edges (fold (\<lambda>x G'. add_edge (Mat x) (Proc r) G') xs G) \<union>
           snd ` edges (fold (\<lambda>x G'. add_edge (Mat x) (Proc r) G') xs G)" for xs
    using nodes_fold_add_inv [OF assms, of Mat "\<lambda>_. Proc r" xs] by simp
  show ?thesis
    unfolding connect_inputs_def
    using a assms nodes_add_edge_inv [OF assms]
    by (simp split: option.splits)
qed

lemma nodes_fold_step_inv:
  "nodes G = fst ` edges G \<union> snd ` edges G \<Longrightarrow>
   nodes (fold (\<lambda>r G. connect_inputs h r (connect_outputs h r G)) ps G) =
     fst ` edges (fold (\<lambda>r G. connect_inputs h r (connect_outputs h r G)) ps G) \<union>
     snd ` edges (fold (\<lambda>r G. connect_inputs h r (connect_outputs h r G)) ps G)"
proof (induction ps arbitrary: G)
  case Nil
  then show ?case by simp
next
  case (Cons p ps)
  show ?case
    unfolding fold_simps
    by (rule Cons.IH) (rule nodes_connect_inputs_inv [OF nodes_connect_outputs_inv [OF Cons.prems]])
qed

lemma nodes_build:
  "nodes (build_assay_graph h ps) =
     fst ` edges (build_assay_graph h ps) \<union> snd ` edges (build_assay_graph h ps)"
  unfolding build_assay_graph_def
  by (rule nodes_fold_step_inv) (simp add: DiGraph_def)

subsection \<open>Outputs override chaining\<close>

lemma mem_out_edges:
  "e \<in> out_edges h r \<longleftrightarrow>
     (\<exists>m. e = (Proc r, Mat m) \<and> m \<in> set (outputs (h r)) \<and> \<not> isinstance_DataFile m) \<or>
     (\<exists>n. e = (Proc r, Proc n) \<and> outputs (h r) = [] \<and> next_process (h r) = Some n)"
  by (auto simp: out_edges_def)

lemma mem_in_edges:
  "e \<in> in_edges h r \<longleftrightarrow>
     (\<exists>m. e = (Mat m, Proc r) \<and> m \<in> set (inputs (h r))) \<or>
     (\<exists>p. e = (Proc p, Proc r) \<and> inputs (h r) = [] \<and> prev_process (h r) = Some p)"
  by (auto simp: in_edges_def)

lemma proc_mat_edge:
  "(Proc r, Mat m) \<in> edges (build_assay_graph h ps) \<longleftrightarrow>
     r \<in> set ps \<and> m \<in> set (outputs (h r)) \<and> \<not> isinstance_DataFile m"
  by (auto simp: edges_build mem_out_edges mem_in_edges)

lemma mat_proc_edge:
  "(Mat m, Proc r) \<in> edges (build_assay_graph h ps) \<longleftrightarrow>
     r \<in> set ps \<and> m \<in> set (inputs (h r))"
  by (auto simp: edges_build mem_out_edges mem_in_edges)

lemma proc_proc_edge:
  "(Proc r, Proc n) \<in> edges (build_assay_graph h ps) \<longleftrightarrow>
     (r \<in> set ps \<and> outputs (h r) = [] \<and> next_process (h r) = Some n) \<or>
     (n \<in> set ps \<and> inputs (h n) = [] \<and> prev_process (h n) = Some r)"
  by (auto simp: edges_build mem_out_edges mem_in_edges)

lemma mat_mat_edge: "(Mat m, Mat m') \<notin> edges (build_assay_graph h ps)"
  by (auto simp: edges_build mem_out_edges mem_in_edges)
text \<open>
  C1 (as stated): a process with a non-empty output list never has an edge to its next
  process in the graph. This fails on \<open>chain_store\<close>: process 1 has the output
  sample 2 and the next process 2, and the graph of the sequence \<open>[1, 2]\<close> contains
  the edge from process 1 to process 2. The edge comes from the input side of process 2,
  which has no inputs and names process 1 as its previous process.
\<close>

theorem chaining_edge_despite_outputs:
  "outputs (chain_store 1) = [Sample 2] \<and> next_process (chain_store 1) = Some 2 \<and>
   (Proc 1, Mat (Sample 2)) \<in> edges (build_assay_graph chain_store [1, 2]) \<and>
   (Proc 1, Proc 2) \<in> edges (build_assay_graph chain_store [1, 2])"
  by (simp add: proc_mat_edge proc_proc_edge chain_store_def)

text \<open>
  C1 (amended): for every store and process sequence, the graph has
  \<^item> an edge from a process to a material exactly when the process is in the sequence and
    the material is one of its outputs and not a data file;
  \<^item> an edge from a material to a process exactly when the process is in the sequence and
    the material is one of its inputs (data files included);
  \<^item> an edge from a process \<open>r\<close> to a process \<open>n\<close> exactly when \<open>r\<close> is in the sequence
    with an empty output list and next process \<open>n\<close>, or \<open>n\<close> is in the sequence with an
    empty input list and previous process \<open>r\<close>;
  \<^item> no edge between two materials.
  So the output side of a process with outputs never adds the chaining edge, and the
  edge to the next process is in the graph only when the next process chains back
  through its own empty input list.
\<close>

theorem outputs_override_chaining:
  "((Proc r, Mat m) \<in> edges (build_assay_graph h ps) \<longleftrightarrow>
      r \<in> set ps \<and> m \<in> set (outputs (h r)) \<and> \<not> isinstance_DataFile m) \<and>
   ((Mat m, Proc r) \<in> edges (build_assay_graph h ps) \<longleftrightarrow>
      r \<in> set ps \<and> m \<in> set (inputs (h r))) \<and>
   ((Proc r, Proc n) \<in> edges (build_assay_graph h ps) \<longleftrightarrow>
      (r \<in> set ps \<and> outputs (h r) = [] \<and> next_process (h r) = Some n) \<or>
      (n \<in> set ps \<and> inputs (h n) = [] \<and> prev_process (h n) = Some r)) \<and>
   (Mat m, Mat m') \<notin> edges (build_assay_graph h ps)"
  using proc_mat_edge mat_proc_edge proc_proc_edge mat_mat_edge by blast

theorem outputs_override_chaining_witness:
  "(Proc 1, Mat (Sample 2)) \<in> edges (build_assay_graph chain_store [1]) \<and>
   (Proc 1, Proc 2) \<notin> edges (build_assay_graph chain_store [1]) \<and>
   (Proc 2, Proc 1) \<notin> edges (build_assay_graph chain_store [1, 2])"
  using outputs_override_chaining [of 1 "Sample 2" chain_store "[1]" 2]
        outputs_override_chaining [of 2 "Sample 2" chain_store "[1, 2]" 1]
  by (simp add: chain_store_def)

subsection \<open>Data files in the graph\<close>

text \<open>
  C4 (as stated): a data file never appears as a node of the graph. This fails on
  \<open>data_store\<close>: process 1 reads data file 7, and the graph of the sequence \<open>[1]\<close>
  has the edge from data file 7 to process 1, so data file 7 is a node.
\<close>

theorem data_file_input_is_node:
  "inputs (data_store 1) = [DataFile 7] \<and>
   (Mat (DataFile 7), Proc 1) \<in> edges (build_assay_graph data_store [1]) \<and>
   Mat (DataFile 7) \<in> nodes (build_assay_graph data_store [1])"
proof -
  have e: "(Mat (DataFile 7), Proc 1) \<in> edges (build_assay_graph data_store [1])"
    by (simp add: mat_proc_edge data_store_def)
  then have "Mat (DataFile 7) \<in> fst ` edges (build_assay_graph data_store [1])"
    by force
  then have "Mat (DataFile 7) \<in> nodes (build_assay_graph data_store [1])"
    using nodes_build [of data_store "[1]"] by blast
  with e show ?thesis by (simp add: data_store_def)
qed

text \<open>
  C4 (amended): data files are excluded on the output side only. For every store and
  process sequence, the graph has no edge from a process to a data file; it has an edge
  from a data file to a process exactly when the process is in the sequence and the data
  file is one of its inputs; and a data file is a node of the graph exactly when it is an
  input of some process of the sequence.
\<close>

theorem data_files_excluded_as_outputs_only:
  "(Proc r, Mat (DataFile d)) \<notin> edges (build_assay_graph h ps) \<and>
   ((Mat (DataFile d), Proc r) \<in> edges (build_assay_graph h ps) \<longleftrightarrow>
      r \<in> set ps \<and> DataFile d \<in> set (inputs (h r))) \<and>
   (Mat (DataFile d) \<in> nodes (build_assay_graph h ps) \<longleftrightarrow>
      (\<exists>q \<in> set ps. DataFile d \<in> set (inputs (h q))))"
proof -
  have n: "Mat (DataFile d) \<in> nodes (build_assay_graph h ps) \<longleftrightarrow>
             (\<exists>q \<in> set ps. DataFile d \<in> set (inputs (h q)))"
  proof
    assume "Mat (DataFile d) \<in> nodes (build_assay_graph h ps)"
    then consider v where "(Mat (DataFile d), v) \<in> edges (build_assay_graph h ps)"
      | u where "(u, Mat (DataFile d)) \<in> edges (build_assay_graph h ps)"
      using nodes_build [of h ps] by force
    then show "\<exists>q \<in> set ps. DataFile d \<in> set (inputs (h q))"
    proof cases
      case 1
      then show ?thesis
        by (cases v) (auto simp: mat_mat_edge mat_proc_edge)
    next
      case 2
      then show ?thesis
        by (cases u) (auto simp: mat_mat_edge proc_mat_edge)
    qed
  next
    assume "\<exists>q \<in> set ps. DataFile d \<in> set (inputs (h q))"
    then obtain q where "(Mat (DataFile d), Proc q) \<in> edges (build_assay_graph h ps)"
      by (auto simp: mat_proc_edge)
    then have "Mat (DataFile d) \<in> fst ` edges (build_assay_graph h ps)"
      by force
    then show "Mat (DataFile d) \<in> nodes (build_assay_graph h ps)"
      using nodes_build [of h ps] by blast
  qed
  show ?thesis
    using n by (simp add: proc_mat_edge mat_proc_edge)
qed

theorem data_files_excluded_as_outputs_only_witness:
  "(Proc 1, Mat (DataFile 8)) \<notin> edges (build_assay_graph data_store [1]) \<and>
   Mat (DataFile 8) \<notin> nodes (build_assay_graph data_store [1])"
  using data_files_excluded_as_outputs_only [of 1 8 data_store "[1]"]
  by (simp add: data_store_def)

section \<open>JSON documents, exceptions and the report\<close>

text \<open>
  The value \<^verbatim>\<open>json.load\<close> returns: \<^verbatim>\<open>None\<close>, a bool, a number, a string, a list or a
  dict. A dict is an association list in insertion order; \<^verbatim>\<open>json.load\<close> keeps one value
  per key, so the keys of a dict are distinct. Identifiers (\<^verbatim>\<open>@id\<close> values) are strings,
  on which Python's \<^verbatim>\<open>==\<close>, \<^verbatim>\<open>in\<close> and set membership are equality of values.
\<close>

datatype json =
    JNull
  | JBool bool
  | JNum int
  | JStr string
  | JList "json list"
  | JDict "(string \<times> json) list"

datatype error =
    KeyError | TypeError | AttributeError | IOError string | ValueError | ValidationError

definition and_then :: "error + 'a \<Rightarrow> ('a \<Rightarrow> error + 'b) \<Rightarrow> error + 'b" where
  "and_then m f = (case m of Inl e \<Rightarrow> Inl e | Inr x \<Rightarrow> f x)"

text \<open>\<^verbatim>\<open>d.keys()\<close>, and the values \<^verbatim>\<open>d[i]\<close> for \<^verbatim>\<open>i\<close> in \<^verbatim>\<open>d.keys()\<close>.\<close>

definition keys :: "(string \<times> json) list \<Rightarrow> string list" where
  "keys kvs = map fst kvs"

definition values_of :: "(string \<times> json) list \<Rightarrow> json list" where
  "values_of kvs = map snd kvs"

text \<open>\<^verbatim>\<open>len(set(d.keys()))\<close>\<close>

definition len_set_keys :: "(string \<times> json) list \<Rightarrow> nat" where
  "len_set_keys kvs = length (remdups (keys kvs))"

text \<open>
  \<^verbatim>\<open>x[k]\<close> for a string \<^verbatim>\<open>k\<close>: a dict without the key raises \<^verbatim>\<open>KeyError\<close>; \<^verbatim>\<open>None\<close>,
  a bool, a number, a string and a list raise \<^verbatim>\<open>TypeError\<close>.
\<close>

fun getitem :: "json \<Rightarrow> string \<Rightarrow> error + json" where
  "getitem (JDict kvs) k = (case map_of kvs k of Some v \<Rightarrow> Inr v | None \<Rightarrow> Inl KeyError)"
| "getitem _ k = Inl TypeError"

text \<open>
  \<^verbatim>\<open>for x in v\<close>: a list yields its elements, a dict its keys, a string its characters;
  \<^verbatim>\<open>None\<close>, a bool and a number are not iterable.
\<close>

fun iter :: "json \<Rightarrow> error + json list" where
  "iter (JList xs) = Inr xs"
| "iter (JDict kvs) = Inr (map JStr (keys kvs))"
| "iter (JStr s) = Inr (map (\<lambda>c. JStr [c]) s)"
| "iter _ = Inl TypeError"

text \<open>A \<^verbatim>\<open>for\<close> loop whose body may raise: the first exception ends the loop.\<close>

fun for_each :: "('a \<Rightarrow> 's \<Rightarrow> error + 's) \<Rightarrow> 'a list \<Rightarrow> 's \<Rightarrow> error + 's" where
  "for_each body [] s = Inr s"
| "for_each body (x # xs) s = and_then (body x s) (for_each body xs)"

text \<open>
  A message is kept as its format string and the arguments of \<^verbatim>\<open>format\<close>: a value of
  the document, or the identifiers of a set difference (\<^verbatim>\<open>list(diff)\<close>, whose order
  Python does not fix).
\<close>

datatype arg = Val json | Ids "json set"

datatype message = Msg string "arg list"

text \<open>
  Modelled from the spec: the class \<^verbatim>\<open>ValidationReport\<close> of \<^verbatim>\<open>isatools.validate.utils\<close>,
  which is not among the sources. The spec describes it as an ordered, append-only sequence
  of diagnostics, each tagged with a severity (warning, error, fatal) and a message.
\<close>

datatype severity = Warning | Error | Fatal

type_synonym report = "(severity \<times> message) list"

definition warn :: "message \<Rightarrow> report \<Rightarrow> report" where
  "warn m report = report @ [(Warning, m)]"

definition error :: "message \<Rightarrow> report \<Rightarrow> report" where
  "error m report = report @ [(Error, m)]"

definition fatal :: "message \<Rightarrow> report \<Rightarrow> report" where
  "fatal m report = report @ [(Fatal, m)]"

section \<open>The reference walker\<close>

text \<open>
  \<^verbatim>\<open>_collect_object_refs\<close>: every dict with the key \<^verbatim>\<open>@id\<close> and at least one other key
  declares its identifier. The list \<open>object_refs\<close> is extended in place and returned.
\<close>

lemma size_value_less:
  "v \<in> set (values_of kvs) \<Longrightarrow> size v < Suc (size_list (size_prod (\<lambda>x. 0) size) kvs)"
  unfolding values_of_def by (induction kvs) force+

lemma size_elem_less: "(x::json) \<in> set js \<Longrightarrow> size x < Suc (size_list size js)"
  by (induction js) force+

function collect_object_refs :: "json \<Rightarrow> json list \<Rightarrow> json list" where
  "collect_object_refs (JDict kvs) object_refs =
     fold collect_object_refs (values_of kvs)
       (if ''@id'' \<in> set (keys kvs) \<and> len_set_keys kvs > 1 then
          (case map_of kvs ''@id'' of
             Some i \<Rightarrow> if i \<notin> set object_refs then object_refs @ [i] else object_refs
           | None \<Rightarrow> object_refs)
        else object_refs)"
| "collect_object_refs (JList js) object_refs = fold collect_object_refs js object_refs"
| "collect_object_refs JNull object_refs = object_refs"
| "collect_object_refs (JBool b) object_refs = object_refs"
| "collect_object_refs (JNum n) object_refs = object_refs"
| "collect_object_refs (JStr s) object_refs = object_refs"
  by pat_completeness auto
termination
  by (relation "measure (\<lambda>(j, object_refs). size j)")
     (auto simp: size_value_less size_elem_less)

text \<open>
  \<^verbatim>\<open>_check_object_refs\<close>: every dict whose only key is \<^verbatim>\<open>@id\<close> uses its identifier; an
  error is reported when the identifier is not among the declared ones and is not the
  array design reference parameter. The report is extended in place.
\<close>

function check_object_refs :: "json \<Rightarrow> json list \<Rightarrow> report \<Rightarrow> report" where
  "check_object_refs (JDict kvs) object_refs report =
     fold (\<lambda>v r. check_object_refs v object_refs r) (values_of kvs)
       (if ''@id'' \<in> set (keys kvs) \<and> len_set_keys kvs = 1 then
          (case map_of kvs ''@id'' of
             Some i \<Rightarrow>
               if i \<notin> set object_refs \<and> i \<noteq> JStr ''#parameter/Array_Design_REF'' then
                 error (Msg ''Object reference {} not declared anywhere'' [Val i]) report
               else report
           | None \<Rightarrow> report)
        else report)"
| "check_object_refs (JList js) object_refs report =
     fold (\<lambda>j r. check_object_refs j object_refs r) js report"
| "check_object_refs JNull object_refs report = report"
| "check_object_refs (JBool b) object_refs report = report"
| "check_object_refs (JNum n) object_refs report = report"
| "check_object_refs (JStr s) object_refs report = report"
  by pat_completeness auto
termination
  by (relation "measure (\<lambda>(j, object_refs, report). size j)")
     (auto simp: size_value_less size_elem_less)

text \<open>A parameter value that refers to its category by an empty identifier.\<close>

definition empty_ref_doc :: json where
  "empty_ref_doc = JDict [(''parameterValues'',
     JList [JDict [(''category'', JDict [(''@id'', JStr '''')]), (''value'', JStr ''x'')]])]"

definition array_design_doc :: json where
  "array_design_doc = JDict [(''parameterValues'',
     JList [JDict [(''category'', JDict [(''@id'', JStr ''#parameter/Array_Design_REF'')]),
                   (''value'', JStr ''A-AFFY-33'')]])]"

lemma fold_invariant:
  "I s \<Longrightarrow> (\<And>x s. x \<in> set xs \<Longrightarrow> I s \<Longrightarrow> I (f x s)) \<Longrightarrow> I (fold f xs s)"
  by (induction xs arbitrary: s) auto

definition undeclared_errors :: "json list \<Rightarrow> (severity \<times> message) set" where
  "undeclared_errors object_refs =
     {(Error, Msg ''Object reference {} not declared anywhere'' [Val i]) | i.
        i \<notin> set object_refs \<and> i \<noteq> JStr ''#parameter/Array_Design_REF''}"

lemma check_object_refs_emits:
  "set report \<subseteq> R \<union> undeclared_errors object_refs \<Longrightarrow>
   set (check_object_refs j object_refs report) \<subseteq> R \<union> undeclared_errors object_refs"
proof (induction j object_refs report rule: check_object_refs.induct)
  case (1 kvs object_refs report)
  show ?case
    unfolding check_object_refs.simps
  proof (rule fold_invariant [where I = "\<lambda>r. set r \<subseteq> R \<union> undeclared_errors object_refs"])
    show "set (if ''@id'' \<in> set (keys kvs) \<and> len_set_keys kvs = 1 then
          (case map_of kvs ''@id'' of
             Some i \<Rightarrow>
               if i \<notin> set object_refs \<and> i \<noteq> JStr ''#parameter/Array_Design_REF'' then
                 error (Msg ''Object reference {} not declared anywhere'' [Val i]) report
               else report
           | None \<Rightarrow> report)
        else report) \<subseteq> R \<union> undeclared_errors object_refs"
      using "1.prems" by (auto simp: error_def undeclared_errors_def split: option.splits)
  next
    fix x s
    assume "x \<in> set (values_of kvs)" "set s \<subseteq> R \<union> undeclared_errors object_refs"
    then show "set (check_object_refs x object_refs s) \<subseteq> R \<union> undeclared_errors object_refs"
      by (rule "1.IH")
  qed
next
  case (2 js object_refs report)
  show ?case
    unfolding check_object_refs.simps
  proof (rule fold_invariant [where I = "\<lambda>r. set r \<subseteq> R \<union> undeclared_errors object_refs"])
    show "set report \<subseteq> R \<union> undeclared_errors object_refs" by (rule "2.prems")
  next
    fix x s
    assume "x \<in> set js" "set s \<subseteq> R \<union> undeclared_errors object_refs"
    then show "set (check_object_refs x object_refs s) \<subseteq> R \<union> undeclared_errors object_refs"
      by (rule "2.IH")
  qed
qed simp_all

lemma array_design_ref_not_reported:
  "(Error, Msg ''Object reference {} not declared anywhere''
      [Val (JStr ''#parameter/Array_Design_REF'')]) \<notin> set (check_object_refs j object_refs [])"
proof -
  have "set (check_object_refs j object_refs []) \<subseteq> {} \<union> undeclared_errors object_refs"
    by (rule check_object_refs_emits) simp
  then show ?thesis
    by (auto simp: undeclared_errors_def)
qed

lemma bare_ref_reported:
  "check_object_refs (JDict [(''@id'', i)]) object_refs report =
     check_object_refs i object_refs
       (if i \<notin> set object_refs \<and> i \<noteq> JStr ''#parameter/Array_Design_REF'' then
          report @ [(Error, Msg ''Object reference {} not declared anywhere'' [Val i])]
        else report)"
  by (simp add: keys_def values_of_def len_set_keys_def error_def)

theorem empty_identifier_reported:
  "collect_object_refs empty_ref_doc [] = [] \<and>
   check_object_refs empty_ref_doc (collect_object_refs empty_ref_doc []) [] =
     [(Error, Msg ''Object reference {} not declared anywhere'' [Val (JStr '''')])]"
  by (simp add: empty_ref_doc_def keys_def values_of_def len_set_keys_def error_def)

theorem sentinel_exclusion:
  "(Error, Msg ''Object reference {} not declared anywhere''
      [Val (JStr ''#parameter/Array_Design_REF'')]) \<notin> set (check_object_refs j object_refs []) \<and>
   check_object_refs (JDict [(''@id'', JStr '''')]) object_refs report =
     (if JStr '''' \<in> set object_refs then report
      else report @ [(Error, Msg ''Object reference {} not declared anywhere'' [Val (JStr '''')])])"
  using array_design_ref_not_reported [of j object_refs]
        bare_ref_reported [of "JStr ''''" object_refs report]
  by simp

theorem sentinel_exclusion_witness:
  "(Error, Msg ''Object reference {} not declared anywhere''
      [Val (JStr ''#parameter/Array_Design_REF'')]) \<notin> set (check_object_refs array_design_doc [] []) \<and>
   check_object_refs (JDict [(''@id'', JStr '''')]) [] [] =
     [(Error, Msg ''Object reference {} not declared anywhere'' [Val (JStr '''')])]"
  using sentinel_exclusion [of array_design_doc "[]" "[]"]
  by simp

section \<open>The PubMed ID format check\<close>

text \<open>
  \<^verbatim>\<open>re.compile('[0-9]{8}').match(s)\<close> and \<^verbatim>\<open>re.compile('PMC[0-9]{8}').match(s)\<close>:
  \<^verbatim>\<open>match\<close> looks for the pattern at the beginning of the string and does not require
  the pattern to reach the end of the string.
\<close>

definition digit :: "char \<Rightarrow> bool" where
  "digit c \<longleftrightarrow> c \<in> set ''0123456789''"

definition pmid_regex_match :: "string \<Rightarrow> bool" where
  "pmid_regex_match s \<longleftrightarrow> 8 \<le> length s \<and> list_all digit (take 8 s)"

definition pmcid_regex_match :: "string \<Rightarrow> bool" where
  "pmcid_regex_match s \<longleftrightarrow> take 3 s = ''PMC'' \<and> pmid_regex_match (drop 3 s)"

text \<open>
  The inner function \<^verbatim>\<open>check_pubmed_id\<close> of \<^verbatim>\<open>check_pubmed_ids_format\<close>; the result is
  the list of lines it prints. The regular expressions accept strings only: any other
  value makes \<^verbatim>\<open>match\<close> raise \<^verbatim>\<open>TypeError\<close>.
\<close>

fun check_pubmed_id :: "json \<Rightarrow> error + message list" where
  "check_pubmed_id (JStr pubmed_id_str) =
     (if pubmed_id_str \<noteq> '''' then
        if \<not> pmid_regex_match pubmed_id_str \<and> \<not> pmcid_regex_match pubmed_id_str then
          Inr [Msg ''PubMed ID {} is not valid format'' [Val (JStr pubmed_id_str)]]
        else Inr []
      else Inr [])"
| "check_pubmed_id _ = Inl TypeError"

text \<open>The loops of \<^verbatim>\<open>check_pubmed_ids_format\<close>; the state is the list of printed lines.\<close>

definition check_pubs :: "json \<Rightarrow> message list \<Rightarrow> error + message list" where
  "check_pubs pubs out =
     and_then (iter pubs) (\<lambda>ps.
       for_each (\<lambda>pub out.
           and_then (getitem pub ''pubMedID'') (\<lambda>v.
           and_then (check_pubmed_id v) (\<lambda>lines. Inr (out @ lines))))
         ps out)"

definition check_pubmed_ids_format :: "json \<Rightarrow> error + message list" where
  "check_pubmed_ids_format isa_json =
     and_then (getitem isa_json ''publications'') (\<lambda>ipubs.
     and_then (check_pubs ipubs []) (\<lambda>out.
     and_then (getitem isa_json ''studies'') (\<lambda>studies.
     and_then (iter studies) (\<lambda>ss.
       for_each (\<lambda>study out.
           and_then (getitem study ''publications'') (\<lambda>spubs. check_pubs spubs out))
         ss out))))"

definition pub_doc :: "string \<Rightarrow> json" where
  "pub_doc pmid = JDict [(''publications'', JList [JDict [(''pubMedID'', JStr pmid)]]),
                         (''studies'', JList [])]"

lemma check_pubmed_id_accepts:
  "check_pubmed_id (JStr s) = Inr [] \<longleftrightarrow>
     s = '''' \<or> pmid_regex_match s \<or> pmcid_regex_match s"
  by simp

lemma check_pubmed_ids_format_pub_doc:
  "check_pubmed_ids_format (pub_doc s) = check_pubmed_id (JStr s)"
  by (simp add: check_pubmed_ids_format_def check_pubs_def pub_doc_def and_then_def)

text \<open>
  C9: the check is meant to accept exactly the 8-digit identifiers and the identifiers
  \<^verbatim>\<open>PMC\<close> followed by 8 digits, and to print one line for any other non-empty value.
  The 9-digit value \<^verbatim>\<open>123456789\<close> and the value \<^verbatim>\<open>12345678abc\<close> are printed nothing
  for, because the patterns are only matched against the beginning of the value. The
  7-digit \<^verbatim>\<open>PMC1234567\<close> of the scenario does get its one line.
\<close>

theorem pubmed_id_trailing_characters_accepted:
  "check_pubmed_ids_format (pub_doc ''123456789'') = Inr [] \<and>
   check_pubmed_ids_format (pub_doc ''12345678abc'') = Inr [] \<and>
   check_pubmed_ids_format (pub_doc ''PMC123456789'') = Inr [] \<and>
   check_pubmed_ids_format (pub_doc ''PMC1234567'') =
     Inr [Msg ''PubMed ID {} is not valid format'' [Val (JStr ''PMC1234567'')]]"
  by (simp add: check_pubmed_ids_format_pub_doc pmid_regex_match_def pmcid_regex_match_def
                digit_def)

section \<open>Declared and used identifiers\<close>

text \<open>
  A list comprehension whose element expression may raise, and
  \<^verbatim>\<open>try: ... except KeyError: pass\<close>.
\<close>

fun map_raise :: "('a \<Rightarrow> error + 'b) \<Rightarrow> 'a list \<Rightarrow> error + 'b list" where
  "map_raise f [] = Inr []"
| "map_raise f (x # xs) =
     and_then (f x) (\<lambda>y. and_then (map_raise f xs) (\<lambda>ys. Inr (y # ys)))"

fun except_KeyError :: "error + 'a \<Rightarrow> 'a \<Rightarrow> error + 'a" where
  "except_KeyError (Inl KeyError) unchanged = Inr unchanged"
| "except_KeyError r unchanged = r"

fun hashable :: "json \<Rightarrow> bool" where
  "hashable (JList _) = False"
| "hashable (JDict _) = False"
| "hashable _ = True"

text \<open>
  The elements of a Python set are compared with \<^verbatim>\<open>==\<close>, and \<^verbatim>\<open>True == 1\<close> and
  \<^verbatim>\<open>False == 0\<close> (with equal hashes): \<open>py_key\<close> maps a hashable value to the
  representative of the values it equals. \<^verbatim>\<open>set(xs)\<close> raises \<^verbatim>\<open>TypeError\<close> on a list or
  a dict among the elements, and keeps the first of equal elements; it is modelled by the
  list of the elements kept. \<open>difference a b\<close> is \<^verbatim>\<open>a - b\<close>. The numbers of a document
  are modelled as integers.
\<close>

fun py_key :: "json \<Rightarrow> json" where
  "py_key (JBool b) = JNum (if b then 1 else 0)"
| "py_key j = j"

definition py_eq :: "json \<Rightarrow> json \<Rightarrow> bool" where
  "py_eq a b \<longleftrightarrow> py_key a = py_key b"

definition py_add_element :: "json \<Rightarrow> json list \<Rightarrow> json list" where
  "py_add_element x s = (if list_ex (py_eq x) s then s else s @ [x])"

definition py_set :: "json list \<Rightarrow> error + json list" where
  "py_set xs = (if list_all hashable xs then Inr (fold py_add_element xs []) else Inl TypeError)"

definition difference :: "json list \<Rightarrow> json list \<Rightarrow> json list" where
  "difference a b = filter (\<lambda>x. \<not> list_ex (py_eq x) b) a"

text \<open>
  \<^verbatim>\<open>a + b\<close> on values of a document: two lists and two strings are concatenated, numbers
  and bools are added, anything else raises \<^verbatim>\<open>TypeError\<close>. \<^verbatim>\<open>k in x.keys()\<close>: only a dict
  has the method \<^verbatim>\<open>keys\<close>. The last step of a nested comprehension,
  \<^verbatim>\<open>[elem for iterabl in lists for elem in iterabl]\<close>, where an element of the list may
  be \<^verbatim>\<open>None\<close>, which is not iterable.
\<close>

fun as_int :: "json \<Rightarrow> int option" where
  "as_int (JNum n) = Some n"
| "as_int (JBool b) = Some (if b then 1 else 0)"
| "as_int _ = None"

fun py_add :: "json \<Rightarrow> json \<Rightarrow> error + json" where
  "py_add (JList xs) (JList ys) = Inr (JList (xs @ ys))"
| "py_add (JStr s) (JStr t) = Inr (JStr (s @ t))"
| "py_add a b =
     (case (as_int a, as_int b) of
        (Some m, Some n) \<Rightarrow> Inr (JNum (m + n))
      | _ \<Rightarrow> Inl TypeError)"

fun has_key :: "json \<Rightarrow> string \<Rightarrow> error + bool" where
  "has_key (JDict kvs) k = Inr (k \<in> set (keys kvs))"
| "has_key _ k = Inl AttributeError"

fun flatten :: "'a list option list \<Rightarrow> error + 'a list" where
  "flatten [] = Inr []"
| "flatten (None # rest) = Inl TypeError"
| "flatten (Some xs # rest) = and_then (flatten rest) (\<lambda>ys. Inr (xs @ ys))"

text \<open>\<^verbatim>\<open>[x['@id'] for x in parent[key]]\<close> and \<^verbatim>\<open>[x['category']['@id'] for x in parent[key]]\<close>\<close>

definition ids_in :: "json \<Rightarrow> string \<Rightarrow> error + json list" where
  "ids_in parent key =
     and_then (getitem parent key) (\<lambda>xs.
     and_then (iter xs) (map_raise (\<lambda>x. getitem x ''@id'')))"

definition category_ids_in :: "json \<Rightarrow> string \<Rightarrow> error + json list" where
  "category_ids_in parent key =
     and_then (getitem parent key) (\<lambda>xs.
     and_then (iter xs) (map_raise (\<lambda>x.
       and_then (getitem x ''category'') (\<lambda>c. getitem c ''@id''))))"

text \<open>
  \<^verbatim>\<open>[x['unit']['@id'] if 'unit' in x.keys() else None for x in parent[key]]\<close>; \<^verbatim>\<open>None\<close> is
  \<open>JNull\<close>.
\<close>

definition unit_ids_in :: "json \<Rightarrow> string \<Rightarrow> error + json list" where
  "unit_ids_in parent key =
     and_then (getitem parent key) (\<lambda>xs.
     and_then (iter xs) (map_raise (\<lambda>x.
       and_then (has_key x ''unit'') (\<lambda>has_unit.
         if has_unit then and_then (getitem x ''unit'') (\<lambda>u. getitem u ''@id'')
         else Inr JNull))))"

text \<open>\<^verbatim>\<open>parent['materials'][a] + parent['materials'][b]\<close>, iterated.\<close>

definition materials_of :: "json \<Rightarrow> string \<Rightarrow> string \<Rightarrow> error + json list" where
  "materials_of parent a b =
     and_then (getitem parent ''materials'') (\<lambda>m1.
     and_then (getitem m1 a) (\<lambda>xs.
     and_then (getitem parent ''materials'') (\<lambda>m2.
     and_then (getitem m2 b) (\<lambda>ys.
     and_then (py_add xs ys) iter))))"

subsection \<open>Protocols\<close>

definition get_study_protocol_ids :: "json \<Rightarrow> error + json list" where
  "get_study_protocol_ids study_json =
     and_then (getitem study_json ''protocols'') (\<lambda>protocols.
     and_then (iter protocols) (map_raise (\<lambda>protocol. getitem protocol ''@id'')))"

text \<open>
  The two loops of \<^verbatim>\<open>check_process_protocol_ids_usage\<close> that fill \<^verbatim>\<open>protocol_ids_used\<close>:
  a process without \<^verbatim>\<open>executesProtocol\<close> or without its \<^verbatim>\<open>@id\<close> is skipped.
\<close>

definition append_executed_protocol :: "json \<Rightarrow> json list \<Rightarrow> error + json list" where
  "append_executed_protocol process protocol_ids_used =
     except_KeyError
       (and_then (getitem process ''executesProtocol'') (\<lambda>p.
        and_then (getitem p ''@id'') (\<lambda>i. Inr (protocol_ids_used @ [i]))))
       protocol_ids_used"

definition protocol_ids_used :: "json \<Rightarrow> error + json list" where
  "protocol_ids_used study_json =
     and_then (getitem study_json ''processSequence'') (\<lambda>process_sequence.
     and_then (iter process_sequence) (\<lambda>ps.
     and_then (for_each append_executed_protocol ps []) (\<lambda>used.
     and_then (getitem study_json ''assays'') (\<lambda>assays.
     and_then (iter assays) (\<lambda>as.
       for_each (\<lambda>assay used.
           and_then (getitem assay ''processSequence'') (\<lambda>process_sequence.
           and_then (iter process_sequence) (\<lambda>ps.
             for_each append_executed_protocol ps used)))
         as used)))))"

text \<open>
  \<^verbatim>\<open>check_process_protocol_ids_usage\<close>: the declared identifiers are read first, then the
  used ones; the result is the list of printed lines. The argument of a line is
  \<^verbatim>\<open>list(diff)\<close>, given as the set of its elements.
\<close>

definition check_process_protocol_ids_usage :: "json \<Rightarrow> error + message list" where
  "check_process_protocol_ids_usage study_json =
     and_then (get_study_protocol_ids study_json) (\<lambda>protocol_ids_declared.
     and_then (protocol_ids_used study_json) (\<lambda>protocol_ids_used.
     and_then (py_set protocol_ids_used) (\<lambda>used.
     and_then (py_set protocol_ids_declared) (\<lambda>declared.
       if difference used declared \<noteq> [] then
         Inr [Msg ''There are protocol IDs {} used in a study or assay process sequence not declared''
                [Ids (set (difference used declared))]]
       else if difference declared used \<noteq> [] then
         Inr [Msg ''There are some protocol IDs declared {} not used in any study or assay process sequence''
                [Ids (set (difference declared used))]]
       else Inr []))))"

subsection \<open>Protocol parameters\<close>

definition get_study_protocols_parameter_ids :: "json \<Rightarrow> error + json list" where
  "get_study_protocols_parameter_ids study_json =
     and_then (getitem study_json ''protocols'') (\<lambda>protocols.
     and_then (iter protocols) (\<lambda>protocols.
     and_then (map_raise (\<lambda>protocol. ids_in protocol ''parameters'') protocols) (\<lambda>lists.
       Inr (concat lists))))"

text \<open>
  The comprehension over the parameter values of the processes of a study or of an assay
  in \<^verbatim>\<open>get_parameter_value_parameter_ids\<close>.
\<close>

definition parameter_value_parameter_ids_of :: "json \<Rightarrow> error + json list" where
  "parameter_value_parameter_ids_of study_or_assay_json =
     and_then (getitem study_or_assay_json ''processSequence'') (\<lambda>process_sequence.
     and_then (iter process_sequence) (\<lambda>ps.
     and_then (map_raise (\<lambda>process. category_ids_in process ''parameterValues'') ps) (\<lambda>lists.
       Inr (concat lists))))"

definition get_parameter_value_parameter_ids :: "json \<Rightarrow> error + json list" where
  "get_parameter_value_parameter_ids study_json =
     and_then (parameter_value_parameter_ids_of study_json) (\<lambda>study_pv_parameter_ids.
     and_then (getitem study_json ''assays'') (\<lambda>assays.
     and_then (iter assays) (\<lambda>as.
       for_each (\<lambda>assay ids.
           and_then (parameter_value_parameter_ids_of assay) (\<lambda>more. Inr (ids @ more)))
         as study_pv_parameter_ids)))"

definition check_protocol_parameter_ids_usage :: "json \<Rightarrow> error + message list" where
  "check_protocol_parameter_ids_usage study_json =
     and_then (get_study_protocols_parameter_ids study_json) (\<lambda>protocols_declared.
     and_then (get_parameter_value_parameter_ids study_json) (\<lambda>protocols_used.
     and_then (py_set protocols_used) (\<lambda>used.
     and_then (py_set protocols_declared) (\<lambda>declared.
       if difference used declared \<noteq> [] then
         Inr [Msg ''There are protocol parameters {} used in a study or assay process not declared in any protocol''
                [Ids (set (difference used declared))]]
       else if difference declared used \<noteq> [] then
         Inr [Msg ''There are some protocol parameters declared {} not used in any study or assay process''
                [Ids (set (difference declared used))]]
       else Inr []))))"

subsection \<open>Characteristic categories\<close>

definition get_characteristic_category_ids :: "json \<Rightarrow> error + json list" where
  "get_characteristic_category_ids study_or_assay_json =
     ids_in study_or_assay_json ''characteristicCategories''"

definition get_characteristic_category_ids_in_study_materials :: "json \<Rightarrow> error + json list" where
  "get_characteristic_category_ids_in_study_materials study_json =
     and_then (materials_of study_json ''sources'' ''samples'') (\<lambda>materials.
     and_then (map_raise (\<lambda>material. category_ids_in material ''characteristics'') materials)
       (\<lambda>lists. Inr (concat lists)))"

definition get_characteristic_category_ids_in_assay_materials :: "json \<Rightarrow> error + json list" where
  "get_characteristic_category_ids_in_assay_materials assay_json =
     and_then (materials_of assay_json ''samples'' ''otherMaterials'') (\<lambda>materials.
     and_then (map_raise (\<lambda>material.
                  and_then (has_key material ''characteristics'') (\<lambda>has_characteristics.
                    if has_characteristics then category_ids_in material ''characteristics''
                    else Inr []))
                materials)
       (\<lambda>lists. Inr (concat lists)))"

text \<open>
  \<^verbatim>\<open>check_characteristic_category_ids_usage\<close> compares the categories of the study and
  then, in a loop, those of each assay. The lines of the study and of the assays handled
  so far are already printed when a later assay raises, so the result is the list of
  printed lines together with the exception that ended the function, if any.
\<close>

definition study_characteristic_category_lines :: "json \<Rightarrow> error + message list" where
  "study_characteristic_category_lines study_json =
     and_then (get_characteristic_category_ids study_json) (\<lambda>characteristic_categories_declared.
     and_then (get_characteristic_category_ids_in_study_materials study_json)
       (\<lambda>characteristic_categories_used.
     and_then (py_set characteristic_categories_used) (\<lambda>used.
     and_then (py_set characteristic_categories_declared) (\<lambda>declared.
       if difference used declared \<noteq> [] then
         Inr [Msg ''There are study characteristic categories {} used in a source or sample characteristic that have not been not declared''
                [Ids (set (difference used declared))]]
       else if difference declared used \<noteq> [] then
         Inr [Msg ''There are some study characteristic categories declared {} that have not been used in any source or sample characteristic''
                [Ids (set (difference declared used))]]
       else Inr []))))"

definition assay_characteristic_category_lines :: "json \<Rightarrow> error + message list" where
  "assay_characteristic_category_lines assay =
     and_then (get_characteristic_category_ids assay) (\<lambda>characteristic_categories_declared.
     and_then (get_characteristic_category_ids_in_assay_materials assay)
       (\<lambda>characteristic_categories_used.
     and_then (py_set characteristic_categories_used) (\<lambda>used.
     and_then (py_set characteristic_categories_declared) (\<lambda>declared.
       if difference used declared \<noteq> [] then
         Inr [Msg ''There are assay characteristic categories {} used in a material characteristic that have not been not declared''
                [Ids (set (difference used declared))]]
       else if difference declared used \<noteq> [] then
         Inr [Msg ''There are some assay characteristic categories declared {} that have not been used in any material characteristic''
                [Ids (set (difference declared used))]]
       else Inr []))))"

fun printing_loop ::
  "('a \<Rightarrow> error + message list) \<Rightarrow> 'a list \<Rightarrow> message list \<Rightarrow> message list \<times> error option" where
  "printing_loop body [] printed = (printed, None)"
| "printing_loop body (x # xs) printed =
     (case body x of
        Inl e \<Rightarrow> (printed, Some e)
      | Inr lines \<Rightarrow> printing_loop body xs (printed @ lines))"

definition check_characteristic_category_ids_usage :: "json \<Rightarrow> message list \<times> error option" where
  "check_characteristic_category_ids_usage study_json =
     (case study_characteristic_category_lines study_json of
        Inl e \<Rightarrow> ([], Some e)
      | Inr printed \<Rightarrow>
          (case and_then (getitem study_json ''assays'') iter of
             Inl e \<Rightarrow> (printed, Some e)
           | Inr assays \<Rightarrow> printing_loop assay_characteristic_category_lines assays printed))"

subsection \<open>Study factors\<close>

definition get_study_factor_ids :: "json \<Rightarrow> error + json list" where
  "get_study_factor_ids study_json = ids_in study_json ''factors''"

definition get_study_factor_ids_in_sample_factor_values :: "json \<Rightarrow> error + json list" where
  "get_study_factor_ids_in_sample_factor_values study_json =
     and_then (getitem study_json ''materials'') (\<lambda>materials.
     and_then (getitem materials ''samples'') (\<lambda>samples.
     and_then (iter samples) (\<lambda>samples.
     and_then (map_raise (\<lambda>sample. category_ids_in sample ''factorValues'') samples) (\<lambda>lists.
       Inr (concat lists)))))"

definition check_study_factor_usage :: "json \<Rightarrow> error + message list" where
  "check_study_factor_usage study_json =
     and_then (get_study_factor_ids study_json) (\<lambda>factors_declared.
     and_then (get_study_factor_ids_in_sample_factor_values study_json) (\<lambda>factors_used.
     and_then (py_set factors_used) (\<lambda>used.
     and_then (py_set factors_declared) (\<lambda>declared.
       if difference used declared \<noteq> [] then
         Inr [Msg ''There are study factors {} used in a sample factor value that have not been not declared''
                [Ids (set (difference used declared))]]
       else if difference declared used \<noteq> [] then
         Inr [Msg ''There are some study factors declared {} that have not been used in any sample factor value''
                [Ids (set (difference declared used))]]
       else Inr []))))"

subsection \<open>Unit categories\<close>

definition get_unit_category_ids :: "json \<Rightarrow> error + json list" where
  "get_unit_category_ids study_or_assay_json = ids_in study_or_assay_json ''unitCategories''"

text \<open>
  The units used in a study: those of the characteristics of sources and samples, of the
  factor values of the samples and of the parameter values of the processes, without the
  \<^verbatim>\<open>None\<close> entries.
\<close>

definition get_study_unit_category_ids_in_materials_and_processes ::
  "json \<Rightarrow> error + json list" where
  "get_study_unit_category_ids_in_materials_and_processes study_json =
     and_then (materials_of study_json ''sources'' ''samples'') (\<lambda>materials.
     and_then (map_raise (\<lambda>material. unit_ids_in material ''characteristics'') materials)
       (\<lambda>study_characteristics_units_used.
     and_then (getitem study_json ''materials'') (\<lambda>m.
     and_then (getitem m ''samples'') (\<lambda>samples.
     and_then (iter samples) (\<lambda>samples.
     and_then (map_raise (\<lambda>material. unit_ids_in material ''factorValues'') samples)
       (\<lambda>study_factor_value_units_used.
     and_then (getitem study_json ''processSequence'') (\<lambda>process_sequence.
     and_then (iter process_sequence) (\<lambda>ps.
     and_then (map_raise (\<lambda>process. unit_ids_in process ''parameterValues'') ps)
       (\<lambda>parameter_value_units_used.
       Inr (filter (\<lambda>x. x \<noteq> JNull)
              (concat study_characteristics_units_used @ concat study_factor_value_units_used @
               concat parameter_value_units_used)))))))))))"

text \<open>
  The units used in an assay. An other material without \<^verbatim>\<open>characteristics\<close> contributes
  \<^verbatim>\<open>None\<close> in place of a list, on which the flattening raises.
\<close>

definition get_assay_unit_category_ids_in_materials_and_processes ::
  "json \<Rightarrow> error + json list" where
  "get_assay_unit_category_ids_in_materials_and_processes assay_json =
     and_then (getitem assay_json ''materials'') (\<lambda>m.
     and_then (getitem m ''otherMaterials'') (\<lambda>materials.
     and_then (iter materials) (\<lambda>materials.
     and_then (map_raise (\<lambda>material.
                  and_then (has_key material ''characteristics'') (\<lambda>has_characteristics.
                    if has_characteristics then
                      and_then (unit_ids_in material ''characteristics'') (\<lambda>units. Inr (Some units))
                    else Inr None))
                materials) (\<lambda>lists.
     and_then (flatten lists) (\<lambda>assay_characteristics_units_used.
     and_then (getitem assay_json ''processSequence'') (\<lambda>process_sequence.
     and_then (iter process_sequence) (\<lambda>ps.
     and_then (map_raise (\<lambda>process. unit_ids_in process ''parameterValues'') ps)
       (\<lambda>parameter_value_units_used.
       Inr (filter (\<lambda>x. x \<noteq> JNull)
              (assay_characteristics_units_used @ concat parameter_value_units_used))))))))))"

definition units_declared_of :: "json \<Rightarrow> error + json list" where
  "units_declared_of study_json =
     and_then (get_unit_category_ids study_json) (\<lambda>units_declared.
     and_then (getitem study_json ''assays'') (\<lambda>assays.
     and_then (iter assays) (\<lambda>as.
       for_each (\<lambda>assay units.
           and_then (get_unit_category_ids assay) (\<lambda>more. Inr (units @ more)))
         as units_declared)))"

definition units_used_of :: "json \<Rightarrow> error + json list" where
  "units_used_of study_json =
     and_then (get_study_unit_category_ids_in_materials_and_processes study_json) (\<lambda>units_used.
     and_then (getitem study_json ''assays'') (\<lambda>assays.
     and_then (iter assays) (\<lambda>as.
       for_each (\<lambda>assay units.
           and_then (get_assay_unit_category_ids_in_materials_and_processes assay)
             (\<lambda>more. Inr (units @ more)))
         as units_used)))"

definition check_unit_category_ids_usage :: "json \<Rightarrow> error + message list" where
  "check_unit_category_ids_usage study_json =
     and_then (units_declared_of study_json) (\<lambda>units_declared.
     and_then (units_used_of study_json) (\<lambda>units_used.
     and_then (py_set units_used) (\<lambda>used.
     and_then (py_set units_declared) (\<lambda>declared.
       if difference used declared \<noteq> [] then
         Inr [Msg ''There are units {} used in a material or parameter value that have not been not declared''
                [Ids (set (difference used declared))]]
       else if difference declared used \<noteq> [] then
         Inr [Msg ''There are some units declared {} that have not been used in any material or parameter value''
                [Ids (set (difference declared used))]]
       else Inr []))))"

subsection \<open>Term sources\<close>

definition get_ontology_source_refs :: "json \<Rightarrow> error + json list" where
  "get_ontology_source_refs isa_json =
     and_then (getitem isa_json ''ontologySourceReferences'') (\<lambda>refs.
     and_then (iter refs) (map_raise (\<lambda>ontology_source_ref. getitem ontology_source_ref ''name'')))"

text \<open>
  \<^verbatim>\<open>walk_and_get_annotations\<close> appends to the collector every dict whose key set is that
  of an ontology annotation, with or without \<^verbatim>\<open>@id\<close>.
\<close>

function walk_and_get_annotations ::
  "json \<Rightarrow> (string \<times> json) list list \<Rightarrow> (string \<times> json) list list" where
  "walk_and_get_annotations (JDict kvs) collector =
     fold walk_and_get_annotations (values_of kvs)
       (if set (keys kvs) = {''annotationValue'', ''termAccession'', ''termSource''} \<or>
           set (keys kvs) = {''@id'', ''annotationValue'', ''termAccession'', ''termSource''}
        then collector @ [kvs] else collector)"
| "walk_and_get_annotations (JList js) collector = fold walk_and_get_annotations js collector"
| "walk_and_get_annotations JNull collector = collector"
| "walk_and_get_annotations (JBool b) collector = collector"
| "walk_and_get_annotations (JNum n) collector = collector"
| "walk_and_get_annotations (JStr s) collector = collector"
  by pat_completeness auto
termination
  by (relation "measure (\<lambda>(j, collector). size j)")
     (auto simp: size_value_less size_elem_less)

text \<open>
  \<^verbatim>\<open>[annotation['termSource'] for annotation in collector if annotation['termSource'] is not '']\<close>:
  the condition is evaluated first, then the element. Every collected dict has the key
  \<^verbatim>\<open>termSource\<close>; the empty string is the one string object that \<^verbatim>\<open>is ''\<close>.
\<close>

fun used_term_sources :: "(string \<times> json) list list \<Rightarrow> error + json list" where
  "used_term_sources [] = Inr []"
| "used_term_sources (annotation # collector) =
     and_then (getitem (JDict annotation) ''termSource'') (\<lambda>t.
       if t \<noteq> JStr '''' then
         and_then (used_term_sources collector) (\<lambda>ts. Inr (t # ts))
       else used_term_sources collector)"

definition term_sources_used :: "json \<Rightarrow> error + json list" where
  "term_sources_used isa_json = used_term_sources (walk_and_get_annotations isa_json [])"

definition check_term_source_refs :: "json \<Rightarrow> error + message list" where
  "check_term_source_refs isa_json =
     and_then (get_ontology_source_refs isa_json) (\<lambda>term_sources_declared.
     and_then (term_sources_used isa_json) (\<lambda>term_sources_used.
     and_then (py_set term_sources_used) (\<lambda>used.
     and_then (py_set term_sources_declared) (\<lambda>declared.
       if difference used declared \<noteq> [] then
         Inr [Msg ''There are ontology sources {} referenced in an annotation that have not been not declared''
                [Ids (set (difference used declared))]]
       else if difference declared used \<noteq> [] then
         Inr [Msg ''There are some ontology sources declared {} that have not been used in any annotation''
                [Ids (set (difference declared used))]]
       else Inr []))))"

subsection \<open>One line for each comparison\<close>

text \<open>
  The outcome of one comparison, stated directly: a line about the
  identifiers used and not declared when there are any; otherwise a line about the
  identifiers declared and not used when there are any; otherwise nothing.
\<close>

definition one_direction :: "string \<Rightarrow> string \<Rightarrow> json list \<Rightarrow> json list \<Rightarrow> message list" where
  "one_direction undeclared unused used declared =
     (if difference used declared \<noteq> [] then [Msg undeclared [Ids (set (difference used declared))]]
      else if difference declared used \<noteq> [] then [Msg unused [Ids (set (difference declared used))]]
      else [])"

text \<open>
  A study that declares protocol P1 and whose only process executes protocol P2, and an
  investigation that declares the term source OBI and whose only annotation names EFO.
\<close>

definition protocol_study :: json where
  "protocol_study = JDict
     [(''protocols'', JList [JDict [(''@id'', JStr ''#protocol/P1''), (''name'', JStr ''P1'')]]),
      (''processSequence'',
         JList [JDict [(''@id'', JStr ''#process/1''),
                       (''executesProtocol'', JDict [(''@id'', JStr ''#protocol/P2'')])]]),
      (''assays'', JList [])]"

definition term_source_doc :: json where
  "term_source_doc = JDict
     [(''ontologySourceReferences'', JList [JDict [(''name'', JStr ''OBI'')]]),
      (''studyDesignDescriptors'',
         JList [JDict [(''annotationValue'', JStr ''intervention design''),
                       (''termAccession'', JStr ''''),
                       (''termSource'', JStr ''EFO'')]])]"

text \<open>
  A study with one assay in which, for every kind of identifier, one identifier is
  declared and another one is used: protocols P1 and P2, parameters Q1 and Q2,
  characteristic categories C1 and C2 in the study and C3 and C4 in the assay, factors F1
  and F2, units U1 and U2.
\<close>

definition usage_assay :: json where
  "usage_assay = JDict
     [(''characteristicCategories'', JList [JDict [(''@id'', JStr ''#category/C3'')]]),
      (''unitCategories'', JList []),
      (''materials'', JDict
         [(''samples'', JList []),
          (''otherMaterials'', JList [JDict
             [(''characteristics'', JList [JDict
                [(''category'', JDict [(''@id'', JStr ''#category/C4'')])]])]])]),
      (''processSequence'', JList [])]"

definition usage_study :: json where
  "usage_study = JDict
     [(''protocols'', JList [JDict
         [(''@id'', JStr ''#protocol/P1''),
          (''parameters'', JList [JDict [(''@id'', JStr ''#parameter/Q1'')]])]]),
      (''processSequence'', JList [JDict
         [(''executesProtocol'', JDict [(''@id'', JStr ''#protocol/P2'')]),
          (''parameterValues'', JList [JDict
             [(''category'', JDict [(''@id'', JStr ''#parameter/Q2'')]),
              (''unit'', JDict [(''@id'', JStr ''#unit/U2'')])]])]]),
      (''characteristicCategories'', JList [JDict [(''@id'', JStr ''#category/C1'')]]),
      (''unitCategories'', JList [JDict [(''@id'', JStr ''#unit/U1'')]]),
      (''factors'', JList [JDict [(''@id'', JStr ''#factor/F1'')]]),
      (''materials'', JDict
         [(''sources'', JList [JDict
             [(''characteristics'', JList [JDict
                [(''category'', JDict [(''@id'', JStr ''#category/C2'')])]])]]),
          (''samples'', JList [JDict
             [(''characteristics'', JList []),
              (''factorValues'', JList [JDict
                [(''category'', JDict [(''@id'', JStr ''#factor/F2'')])]])]])]),
      (''assays'', JList [usage_assay])]"

text \<open>
  A study whose only protocol has the identifier \<^verbatim>\<open>1\<close> and whose only process executes
  the protocol \<^verbatim>\<open>true\<close>.
\<close>

definition bool_study :: json where
  "bool_study = JDict
     [(''protocols'', JList [JDict [(''@id'', JNum 1)]]),
      (''processSequence'', JList [JDict [(''executesProtocol'', JDict [(''@id'', JBool True)])]]),
      (''assays'', JList [])]"

lemma protocol_study_ids:
  "get_study_protocol_ids protocol_study = Inr [JStr ''#protocol/P1'']"
  "protocol_ids_used protocol_study = Inr [JStr ''#protocol/P2'']"
  by (simp_all add: get_study_protocol_ids_def protocol_ids_used_def protocol_study_def
                    append_executed_protocol_def and_then_def)

lemma term_source_doc_ids:
  "get_ontology_source_refs term_source_doc = Inr [JStr ''OBI'']"
  "term_sources_used term_source_doc = Inr [JStr ''EFO'']"
  by (simp_all add: get_ontology_source_refs_def term_sources_used_def term_source_doc_def
                    and_then_def keys_def values_of_def set_eq_subset)

lemma py_set_singleton: "hashable x \<Longrightarrow> py_set [x] = Inr [x]"
  by (simp add: py_set_def py_add_element_def)

lemma difference_singletons:
  "difference [JStr a] [JStr b] = (if a = b then [] else [JStr a])"
  by (simp add: difference_def py_eq_def)

lemma bool_study_equal_ids:
  "check_process_protocol_ids_usage bool_study = Inr []"
  by (simp add: check_process_protocol_ids_usage_def get_study_protocol_ids_def
                protocol_ids_used_def bool_study_def append_executed_protocol_def and_then_def
                py_set_def py_add_element_def difference_def py_eq_def)

lemma usage_assay_ids:
  "get_characteristic_category_ids usage_assay = Inr [JStr ''#category/C3'']"
  "get_characteristic_category_ids_in_assay_materials usage_assay = Inr [JStr ''#category/C4'']"
  "get_unit_category_ids usage_assay = Inr []"
  "get_assay_unit_category_ids_in_materials_and_processes usage_assay = Inr []"
  "parameter_value_parameter_ids_of usage_assay = Inr []"
  by (simp_all add: usage_assay_def get_characteristic_category_ids_def
                    get_characteristic_category_ids_in_assay_materials_def
                    get_unit_category_ids_def
                    get_assay_unit_category_ids_in_materials_and_processes_def
                    parameter_value_parameter_ids_of_def ids_in_def category_ids_in_def
                    unit_ids_in_def materials_of_def and_then_def keys_def)

lemma usage_study_assays: "getitem usage_study ''assays'' = Inr (JList [usage_assay])"
  by (simp add: usage_study_def)

lemma usage_study_ids:
  "get_study_protocol_ids usage_study = Inr [JStr ''#protocol/P1'']"
  "protocol_ids_used usage_study = Inr [JStr ''#protocol/P2'']"
  "get_study_protocols_parameter_ids usage_study = Inr [JStr ''#parameter/Q1'']"
  "get_characteristic_category_ids usage_study = Inr [JStr ''#category/C1'']"
  "get_characteristic_category_ids_in_study_materials usage_study = Inr [JStr ''#category/C2'']"
  "get_study_factor_ids usage_study = Inr [JStr ''#factor/F1'']"
  "get_study_factor_ids_in_sample_factor_values usage_study = Inr [JStr ''#factor/F2'']"
  by (simp_all add: usage_study_def usage_assay_def get_study_protocol_ids_def
                    protocol_ids_used_def append_executed_protocol_def
                    get_study_protocols_parameter_ids_def get_characteristic_category_ids_def
                    get_characteristic_category_ids_in_study_materials_def
                    get_study_factor_ids_def get_study_factor_ids_in_sample_factor_values_def
                    ids_in_def category_ids_in_def materials_of_def and_then_def)

lemma usage_study_parameters:
  "get_parameter_value_parameter_ids usage_study = Inr [JStr ''#parameter/Q2'']"
  unfolding get_parameter_value_parameter_ids_def usage_study_assays
  by (simp add: usage_assay_ids and_then_def)
     (simp add: usage_study_def parameter_value_parameter_ids_of_def category_ids_in_def
                and_then_def)

lemma usage_study_units:
  "units_declared_of usage_study = Inr [JStr ''#unit/U1'']"
  "units_used_of usage_study = Inr [JStr ''#unit/U2'']"
proof -
  have "get_unit_category_ids usage_study = Inr [JStr ''#unit/U1'']"
    by (simp add: usage_study_def get_unit_category_ids_def ids_in_def and_then_def)
  then show "units_declared_of usage_study = Inr [JStr ''#unit/U1'']"
    unfolding units_declared_of_def usage_study_assays
    by (simp add: usage_assay_ids and_then_def)
  have "get_study_unit_category_ids_in_materials_and_processes usage_study =
          Inr [JStr ''#unit/U2'']"
    by (simp add: usage_study_def get_study_unit_category_ids_in_materials_and_processes_def
                  unit_ids_in_def materials_of_def and_then_def keys_def)
  then show "units_used_of usage_study = Inr [JStr ''#unit/U2'']"
    unfolding units_used_of_def usage_study_assays
    by (simp add: usage_assay_ids and_then_def)
qed

lemma printing_loop_all2:
  "list_all2 (\<lambda>x lines. body x = Inr lines) xs liness \<Longrightarrow>
   printing_loop body xs printed = (printed @ concat liness, None)"
  by (induction xs liness arbitrary: printed rule: list_all2_induct) simp_all

text \<open>
  C2 (as stated): when both differences are non-empty, diagnostics for both directions
  are emitted, one per element. In \<open>protocol_study\<close> protocol P2 is used and not
  declared, and protocol P1 is declared and not used; the check prints the single line
  about P2 and nothing about P1. The same happens for the term sources of
  \<open>term_source_doc\<close>.
\<close>

theorem declared_unused_suppressed:
  "get_study_protocol_ids protocol_study = Inr [JStr ''#protocol/P1''] \<and>
   protocol_ids_used protocol_study = Inr [JStr ''#protocol/P2''] \<and>
   check_process_protocol_ids_usage protocol_study =
     Inr [Msg ''There are protocol IDs {} used in a study or assay process sequence not declared''
            [Ids {JStr ''#protocol/P2''}]] \<and>
   get_ontology_source_refs term_source_doc = Inr [JStr ''OBI''] \<and>
   term_sources_used term_source_doc = Inr [JStr ''EFO''] \<and>
   check_term_source_refs term_source_doc =
     Inr [Msg ''There are ontology sources {} referenced in an annotation that have not been not declared''
            [Ids {JStr ''EFO''}]]"
  by (simp add: protocol_study_ids term_source_doc_ids check_process_protocol_ids_usage_def
                check_term_source_refs_def py_set_singleton difference_singletons and_then_def)

text \<open>
  C2 (amended): each of the usage checks \<^verbatim>\<open>check_process_protocol_ids_usage\<close>,
  \<^verbatim>\<open>check_protocol_parameter_ids_usage\<close>, \<^verbatim>\<open>check_study_factor_usage\<close>,
  \<^verbatim>\<open>check_unit_category_ids_usage\<close> and \<^verbatim>\<open>check_term_source_refs\<close> makes one comparison of
  the set of the identifiers it found used with the set of those it found declared, and
  \<^verbatim>\<open>check_characteristic_category_ids_usage\<close> makes one comparison for the study and one
  more for each assay of the study. A comparison prints at most one line: when used minus
  declared is non-empty, one line listing that whole difference and nothing about declared
  minus used; only when used minus declared is empty and declared minus used is not, one
  line listing declared minus used; nothing when both are empty. Identifiers are compared
  as Python compares the elements of a set.
\<close>

theorem usage_check_one_direction:
  "(get_study_protocol_ids study_json = Inr ds_protocols \<and> protocol_ids_used study_json = Inr us_protocols \<and>
    py_set us_protocols = Inr used_protocols \<and> py_set ds_protocols = Inr declared_protocols \<longrightarrow>
    check_process_protocol_ids_usage study_json =
      Inr (one_direction
             ''There are protocol IDs {} used in a study or assay process sequence not declared''
             ''There are some protocol IDs declared {} not used in any study or assay process sequence''
             used_protocols declared_protocols)) \<and>
   (get_study_protocols_parameter_ids study_json = Inr ds_parameters \<and>
    get_parameter_value_parameter_ids study_json = Inr us_parameters \<and>
    py_set us_parameters = Inr used_parameters \<and> py_set ds_parameters = Inr declared_parameters \<longrightarrow>
    check_protocol_parameter_ids_usage study_json =
      Inr (one_direction
             ''There are protocol parameters {} used in a study or assay process not declared in any protocol''
             ''There are some protocol parameters declared {} not used in any study or assay process''
             used_parameters declared_parameters)) \<and>
   (get_study_factor_ids study_json = Inr ds_factors \<and>
    get_study_factor_ids_in_sample_factor_values study_json = Inr us_factors \<and>
    py_set us_factors = Inr used_factors \<and> py_set ds_factors = Inr declared_factors \<longrightarrow>
    check_study_factor_usage study_json =
      Inr (one_direction
             ''There are study factors {} used in a sample factor value that have not been not declared''
             ''There are some study factors declared {} that have not been used in any sample factor value''
             used_factors declared_factors)) \<and>
   (units_declared_of study_json = Inr ds_units \<and> units_used_of study_json = Inr us_units \<and>
    py_set us_units = Inr used_units \<and> py_set ds_units = Inr declared_units \<longrightarrow>
    check_unit_category_ids_usage study_json =
      Inr (one_direction
             ''There are units {} used in a material or parameter value that have not been not declared''
             ''There are some units declared {} that have not been used in any material or parameter value''
             used_units declared_units)) \<and>
   (get_ontology_source_refs isa_json = Inr ds_sources \<and> term_sources_used isa_json = Inr us_sources \<and>
    py_set us_sources = Inr used_sources \<and> py_set ds_sources = Inr declared_sources \<longrightarrow>
    check_term_source_refs isa_json =
      Inr (one_direction
             ''There are ontology sources {} referenced in an annotation that have not been not declared''
             ''There are some ontology sources declared {} that have not been used in any annotation''
             used_sources declared_sources)) \<and>
   (get_characteristic_category_ids study_json = Inr ds_categories \<and>
    get_characteristic_category_ids_in_study_materials study_json = Inr us_categories \<and>
    py_set us_categories = Inr used_categories \<and> py_set ds_categories = Inr declared_categories \<and>
    getitem study_json ''assays'' = Inr (JList assays) \<and>
    list_all2 (\<lambda>assay (used, declared).
        \<exists>ds us. get_characteristic_category_ids assay = Inr ds \<and>
                 get_characteristic_category_ids_in_assay_materials assay = Inr us \<and>
                 py_set us = Inr used \<and> py_set ds = Inr declared)
      assays sets \<longrightarrow>
    check_characteristic_category_ids_usage study_json =
      (one_direction
         ''There are study characteristic categories {} used in a source or sample characteristic that have not been not declared''
         ''There are some study characteristic categories declared {} that have not been used in any source or sample characteristic''
         used_categories declared_categories @
       concat (map (\<lambda>(used, declared).
                 one_direction
                   ''There are assay characteristic categories {} used in a material characteristic that have not been not declared''
                   ''There are some assay characteristic categories declared {} that have not been used in any material characteristic''
                   used declared)
               sets),
       None)) \<and>
   length (one_direction undeclared unused used declared) \<le> 1 \<and>
   (difference used declared \<noteq> [] \<longrightarrow>
      one_direction undeclared unused used declared =
        [Msg undeclared [Ids (set (difference used declared))]])"
proof (intro conjI impI)
  assume a: "get_characteristic_category_ids study_json = Inr ds_categories \<and>
    get_characteristic_category_ids_in_study_materials study_json = Inr us_categories \<and>
    py_set us_categories = Inr used_categories \<and> py_set ds_categories = Inr declared_categories \<and>
    getitem study_json ''assays'' = Inr (JList assays) \<and>
    list_all2 (\<lambda>assay (used, declared).
        \<exists>ds us. get_characteristic_category_ids assay = Inr ds \<and>
                 get_characteristic_category_ids_in_assay_materials assay = Inr us \<and>
                 py_set us = Inr used \<and> py_set ds = Inr declared)
      assays sets"
  let ?line = "\<lambda>(used, declared).
                 one_direction
                   ''There are assay characteristic categories {} used in a material characteristic that have not been not declared''
                   ''There are some assay characteristic categories declared {} that have not been used in any material characteristic''
                   used declared"
  from a have s: "study_characteristic_category_lines study_json =
      Inr (one_direction
         ''There are study characteristic categories {} used in a source or sample characteristic that have not been not declared''
         ''There are some study characteristic categories declared {} that have not been used in any source or sample characteristic''
         used_categories declared_categories)"
    by (simp add: study_characteristic_category_lines_def one_direction_def and_then_def)
  from a have "list_all2 (\<lambda>assay (used, declared).
        \<exists>ds us. get_characteristic_category_ids assay = Inr ds \<and>
                 get_characteristic_category_ids_in_assay_materials assay = Inr us \<and>
                 py_set us = Inr used \<and> py_set ds = Inr declared)
      assays sets" by simp
  then have "list_all2 (\<lambda>assay lines. assay_characteristic_category_lines assay = Inr lines)
               assays (map ?line sets)"
    unfolding list_all2_map2
    by (rule list_all2_mono)
       (auto simp: assay_characteristic_category_lines_def one_direction_def and_then_def)
  then have l: "\<And>printed. printing_loop assay_characteristic_category_lines assays printed =
                  (printed @ concat (map ?line sets), None)"
    by (rule printing_loop_all2)
  from a have g: "getitem study_json ''assays'' = Inr (JList assays)" by simp
  show "check_characteristic_category_ids_usage study_json =
      (one_direction
         ''There are study characteristic categories {} used in a source or sample characteristic that have not been not declared''
         ''There are some study characteristic categories declared {} that have not been used in any source or sample characteristic''
         used_categories declared_categories @ concat (map ?line sets), None)"
    by (simp add: check_characteristic_category_ids_usage_def s g l and_then_def)
qed (simp_all add: check_process_protocol_ids_usage_def check_protocol_parameter_ids_usage_def
                   check_study_factor_usage_def check_unit_category_ids_usage_def
                   check_term_source_refs_def one_direction_def and_then_def)

theorem usage_check_one_direction_witness:
  "check_process_protocol_ids_usage usage_study =
     Inr [Msg ''There are protocol IDs {} used in a study or assay process sequence not declared''
            [Ids {JStr ''#protocol/P2''}]] \<and>
   check_protocol_parameter_ids_usage usage_study =
     Inr [Msg ''There are protocol parameters {} used in a study or assay process not declared in any protocol''
            [Ids {JStr ''#parameter/Q2''}]] \<and>
   check_study_factor_usage usage_study =
     Inr [Msg ''There are study factors {} used in a sample factor value that have not been not declared''
            [Ids {JStr ''#factor/F2''}]] \<and>
   check_unit_category_ids_usage usage_study =
     Inr [Msg ''There are units {} used in a material or parameter value that have not been not declared''
            [Ids {JStr ''#unit/U2''}]] \<and>
   check_term_source_refs term_source_doc =
     Inr [Msg ''There are ontology sources {} referenced in an annotation that have not been not declared''
            [Ids {JStr ''EFO''}]] \<and>
   check_characteristic_category_ids_usage usage_study =
     ([Msg ''There are study characteristic categories {} used in a source or sample characteristic that have not been not declared''
         [Ids {JStr ''#category/C2''}],
       Msg ''There are assay characteristic categories {} used in a material characteristic that have not been not declared''
         [Ids {JStr ''#category/C4''}]],
      None) \<and>
   difference [JStr ''#protocol/P2''] [JStr ''#protocol/P1''] \<noteq> [] \<and>
   one_direction ''undeclared {}'' ''unused {}'' [JStr ''#protocol/P2''] [JStr ''#protocol/P1''] =
     [Msg ''undeclared {}'' [Ids {JStr ''#protocol/P2''}]]"
  using usage_check_one_direction
          [where study_json = usage_study and isa_json = term_source_doc
             and ds_protocols = "[JStr ''#protocol/P1'']" and us_protocols = "[JStr ''#protocol/P2'']"
             and declared_protocols = "[JStr ''#protocol/P1'']" and used_protocols = "[JStr ''#protocol/P2'']"
             and ds_parameters = "[JStr ''#parameter/Q1'']" and us_parameters = "[JStr ''#parameter/Q2'']"
             and declared_parameters = "[JStr ''#parameter/Q1'']" and used_parameters = "[JStr ''#parameter/Q2'']"
             and ds_factors = "[JStr ''#factor/F1'']" and us_factors = "[JStr ''#factor/F2'']"
             and declared_factors = "[JStr ''#factor/F1'']" and used_factors = "[JStr ''#factor/F2'']"
             and ds_units = "[JStr ''#unit/U1'']" and us_units = "[JStr ''#unit/U2'']"
             and declared_units = "[JStr ''#unit/U1'']" and used_units = "[JStr ''#unit/U2'']"
             and ds_sources = "[JStr ''OBI'']" and us_sources = "[JStr ''EFO'']"
             and declared_sources = "[JStr ''OBI'']" and used_sources = "[JStr ''EFO'']"
             and ds_categories = "[JStr ''#category/C1'']" and us_categories = "[JStr ''#category/C2'']"
             and declared_categories = "[JStr ''#category/C1'']" and used_categories = "[JStr ''#category/C2'']"
             and assays = "[usage_assay]"
             and sets = "[([JStr ''#category/C4''], [JStr ''#category/C3''])]"
             and undeclared = "''undeclared {}''" and unused = "''unused {}''"
             and used = "[JStr ''#protocol/P2'']" and declared = "[JStr ''#protocol/P1'']"]
  by (simp add: usage_study_ids usage_study_parameters usage_study_units usage_study_assays
                usage_assay_ids term_source_doc_ids py_set_singleton difference_singletons
                one_direction_def)

section \<open>Loading: the identifier registry and the entity builder\<close>

text \<open>
  The objects \<^verbatim>\<open>load\<close> keeps in its dictionaries of sources, samples, other materials
  and data files, with the attributes set by the constructor calls: the class, the
  identifier (\<^verbatim>\<open>id_\<close>) and the name (\<^verbatim>\<open>name\<close>, for a data file \<^verbatim>\<open>filename\<close>).
\<close>

datatype class_name = Source_class | Sample_class | Material_class | DataFile_class

record entity =
  class_of :: class_name
  obj_id :: json
  obj_name :: json

text \<open>
  A dictionary keyed by identifiers. \<^verbatim>\<open>d[k]\<close> raises \<^verbatim>\<open>KeyError\<close> when the key is
  missing; reading or writing with a list or a dict as key raises \<^verbatim>\<open>TypeError\<close>.
\<close>

type_synonym 'v dict = "json \<rightharpoonup> 'v"

definition lookup :: "'v dict \<Rightarrow> json \<Rightarrow> error + 'v" where
  "lookup d k =
     (if hashable k then (case d k of Some v \<Rightarrow> Inr v | None \<Rightarrow> Inl KeyError)
      else Inl TypeError)"

definition setitem :: "'v dict \<Rightarrow> json \<Rightarrow> 'v \<Rightarrow> error + 'v dict" where
  "setitem d k v = (if hashable k then Inr (d(k \<mapsto> v)) else Inl TypeError)"

subsection \<open>Names of sources, samples and other materials\<close>

text \<open>
  \<^verbatim>\<open>x[n:]\<close>: a string or a list without its first \<open>n\<close> elements; any other value
  raises \<^verbatim>\<open>TypeError\<close>. \<^verbatim>\<open>x.startswith(p)\<close> exists for strings only; on any other value
  the attribute lookup raises \<^verbatim>\<open>AttributeError\<close>.
\<close>

fun slice_from :: "nat \<Rightarrow> json \<Rightarrow> error + json" where
  "slice_from n (JStr s) = Inr (JStr (drop n s))"
| "slice_from n (JList xs) = Inr (JList (drop n xs))"
| "slice_from n _ = Inl TypeError"

fun startswith :: "json \<Rightarrow> string \<Rightarrow> error + bool" where
  "startswith (JStr s) p = Inr (prefix p s)"
| "startswith _ p = Inl AttributeError"

text \<open>
  \<^verbatim>\<open>Source(id_=source_json['@id'], name=source_json['name'][7:])\<close>, and the same call
  for \<^verbatim>\<open>Sample\<close>, which also reads \<^verbatim>\<open>derivesFrom\<close>.
\<close>

definition build_source :: "json \<Rightarrow> error + entity" where
  "build_source source_json =
     and_then (getitem source_json ''@id'') (\<lambda>i.
     and_then (getitem source_json ''name'') (\<lambda>n.
     and_then (slice_from 7 n) (\<lambda>name.
       Inr \<lparr>class_of = Source_class, obj_id = i, obj_name = name\<rparr>)))"

definition build_sample :: "json \<Rightarrow> error + entity" where
  "build_sample sample_json =
     and_then (getitem sample_json ''@id'') (\<lambda>i.
     and_then (getitem sample_json ''name'') (\<lambda>n.
     and_then (slice_from 7 n) (\<lambda>name.
     and_then (getitem sample_json ''derivesFrom'') (\<lambda>derives_from.
       Inr \<lparr>class_of = Sample_class, obj_id = i, obj_name = name\<rparr>))))"

text \<open>
  An other material of an assay: the name loses \<^verbatim>\<open>labeledextract-\<close> (15 characters)
  when it starts with it, and its first 8 characters otherwise.
\<close>

definition build_material :: "json \<Rightarrow> error + entity" where
  "build_material other_material_json =
     and_then (getitem other_material_json ''name'') (\<lambda>material_name.
     and_then (startswith material_name ''labeledextract-'') (\<lambda>labeled.
     and_then (if labeled then slice_from 15 material_name else slice_from 8 material_name)
       (\<lambda>material_name.
     and_then (getitem other_material_json ''@id'') (\<lambda>i.
     and_then (getitem other_material_json ''type'') (\<lambda>t.
       Inr \<lparr>class_of = Material_class, obj_id = i, obj_name = material_name\<rparr>)))))"

text \<open>\<^verbatim>\<open>DataFile(id_=data_json['@id'], filename=data_json['name'], label=data_json['type'])\<close>\<close>

definition build_data_file :: "json \<Rightarrow> error + entity" where
  "build_data_file data_json =
     and_then (getitem data_json ''@id'') (\<lambda>i.
     and_then (getitem data_json ''name'') (\<lambda>filename.
     and_then (getitem data_json ''type'') (\<lambda>label.
       Inr \<lparr>class_of = DataFile_class, obj_id = i, obj_name = filename\<rparr>)))"

subsection \<open>Resolving the inputs and outputs of a process\<close>

text \<open>
  One step of the resolution, \<^verbatim>\<open>try: x = d[io_json['@id']]\<close> with \<^verbatim>\<open>except KeyError: pass\<close>:
  a missing \<^verbatim>\<open>@id\<close> and a missing dictionary entry both leave \<open>x\<close> as it was.
\<close>

definition try_lookup :: "entity dict \<Rightarrow> json \<Rightarrow> entity option \<Rightarrow> error + entity option" where
  "try_lookup d io_json x =
     except_KeyError
       (and_then (getitem io_json ''@id'') (\<lambda>i.
        and_then (lookup d i) (\<lambda>e. Inr (Some e))))
       x"

text \<open>
  \<^verbatim>\<open>try: ... finally: ...\<close>, where \<open>a\<close> is the outcome of the \<^verbatim>\<open>try\<close> part run from the
  state \<open>s0\<close>: the \<^verbatim>\<open>finally\<close> part always runs; an exception it raises replaces the one
  of the \<^verbatim>\<open>try\<close> part, which is re-raised otherwise.
\<close>

definition try_finally :: "error + 's \<Rightarrow> 's \<Rightarrow> ('s \<Rightarrow> error + 's) \<Rightarrow> error + 's" where
  "try_finally a s0 b =
     (case a of
        Inr s \<Rightarrow> b s
      | Inl e \<Rightarrow> (case b s0 of Inl e' \<Rightarrow> Inl e' | Inr _ \<Rightarrow> Inl e))"

text \<open>
  \<^verbatim>\<open>raise IOError(text + io_json['@id'])\<close>: the subscript raises when \<^verbatim>\<open>@id\<close> is absent,
  and \<^verbatim>\<open>+\<close> raises \<^verbatim>\<open>TypeError\<close> when the identifier is not a string.
\<close>

definition raise_IOError :: "string \<Rightarrow> json \<Rightarrow> error + 'a" where
  "raise_IOError text io_json =
     and_then (getitem io_json ''@id'') (\<lambda>i.
       case i of JStr s \<Rightarrow> Inl (IOError (text @ s)) | _ \<Rightarrow> Inl TypeError)"

text \<open>
  The body of the loops over the inputs and over the outputs of a study process. The
  two loops differ only in the word (\<^verbatim>\<open>input\<close> or \<^verbatim>\<open>output\<close>) of the message, which is
  the parameter \<open>io\<close>; the result is the object appended to the inputs or outputs of the
  process.
\<close>

definition resolve_study_io ::
  "string \<Rightarrow> entity dict \<Rightarrow> entity dict \<Rightarrow> json \<Rightarrow> error + entity" where
  "resolve_study_io io sources_dict samples_dict io_json =
     and_then
       (try_finally (try_lookup sources_dict io_json None) None
          (try_lookup samples_dict io_json))
       (\<lambda>x. case x of
          None \<Rightarrow>
            raise_IOError (''Could not find '' @ io @ '' node in sources or samples dicts: '')
              io_json
        | Some e \<Rightarrow> Inr e)"

text \<open>The same for the processes of an assay, with three dictionaries.\<close>

definition resolve_assay_io ::
  "string \<Rightarrow> entity dict \<Rightarrow> entity dict \<Rightarrow> entity dict \<Rightarrow> json \<Rightarrow> error + entity" where
  "resolve_assay_io io samples_dict other_materials_dict data_dict io_json =
     and_then
       (try_finally (try_lookup samples_dict io_json None) None
          (\<lambda>x. try_finally (try_lookup other_materials_dict io_json x) x
             (try_lookup data_dict io_json)))
       (\<lambda>x. case x of
          None \<Rightarrow>
            raise_IOError
              (''Could not find '' @ io @ '' node in samples or materials or data dicts: '')
              io_json
        | Some e \<Rightarrow> Inr e)"

text \<open>
  The two loops of a process: \<^verbatim>\<open>for input_json in process_json['inputs']\<close> and
  \<^verbatim>\<open>for output_json in process_json['outputs']\<close>, giving the input and the output lists of
  the process. The first reference that does not resolve ends the loops with its exception.
\<close>

definition resolve_process_io ::
  "(string \<Rightarrow> json \<Rightarrow> error + entity) \<Rightarrow> json \<Rightarrow> error + entity list \<times> entity list" where
  "resolve_process_io resolve process_json =
     and_then (getitem process_json ''inputs'') (\<lambda>ins.
     and_then (iter ins) (\<lambda>ins.
     and_then (map_raise (resolve ''input'') ins) (\<lambda>inputs.
     and_then (getitem process_json ''outputs'') (\<lambda>outs.
     and_then (iter outs) (\<lambda>outs.
     and_then (map_raise (resolve ''output'') outs) (\<lambda>outputs.
       Inr (inputs, outputs)))))))"

text \<open>Example objects of a document.\<close>

definition source_json_ex :: json where
  "source_json_ex = JDict [(''@id'', JStr ''#source/1''), (''name'', JStr ''source-culture1''),
                           (''characteristics'', JList [])]"

definition sample_json_ex :: json where
  "sample_json_ex = JDict [(''@id'', JStr ''#sample/1''), (''name'', JStr ''sample-liver1''),
                           (''derivesFrom'', JList []), (''characteristics'', JList []),
                           (''factorValues'', JList [])]"

definition labeled_extract_json_ex :: json where
  "labeled_extract_json_ex =
     JDict [(''@id'', JStr ''#material/2''), (''name'', JStr ''labeledextract-L1''),
            (''type'', JStr ''Labeled Extract Name''), (''characteristics'', JList [])]"

definition extract_json_ex :: json where
  "extract_json_ex =
     JDict [(''@id'', JStr ''#material/1''), (''name'', JStr ''extract-E1''),
            (''type'', JStr ''Extract Name''), (''characteristics'', JList [])]"






subsection \<open>Stored names\<close>

lemma slice_drop_differs: "s \<noteq> [] \<Longrightarrow> 0 < n \<Longrightarrow> drop n s \<noteq> s"
proof
  assume "s \<noteq> []" "0 < n" "drop n s = s"
  then have "length (drop n s) = length s" by simp
  with \<open>s \<noteq> []\<close> \<open>0 < n\<close> show False by (cases s) auto
qed

text \<open>An object whose name is the empty string.\<close>

definition unnamed_json :: json where
  "unnamed_json = JDict [(''@id'', JStr ''#material/3''), (''name'', JStr ''''),
                         (''derivesFrom'', JList []), (''type'', JStr ''Extract Name''),
                         (''characteristics'', JList []), (''factorValues'', JList [])]"

text \<open>
  C10 (as stated): the raw name is never stored as it is. The name of \<open>unnamed_json\<close>
  is the empty string; as a source, as a sample and as an other material the object is built
  with the empty string as its name, which is the raw name.
\<close>

theorem empty_name_stored_verbatim:
  "getitem unnamed_json ''name'' = Inr (JStr '''') \<and>
   build_source unnamed_json =
     Inr \<lparr>class_of = Source_class, obj_id = JStr ''#material/3'', obj_name = JStr ''''\<rparr> \<and>
   build_sample unnamed_json =
     Inr \<lparr>class_of = Sample_class, obj_id = JStr ''#material/3'', obj_name = JStr ''''\<rparr> \<and>
   build_material unnamed_json =
     Inr \<lparr>class_of = Material_class, obj_id = JStr ''#material/3'', obj_name = JStr ''''\<rparr>"
  by (simp add: unnamed_json_def build_source_def build_sample_def build_material_def
                and_then_def)

text \<open>
  C10 (amended): for every source and sample object with an identifier and a string name
  (and, for a sample, the \<^verbatim>\<open>derivesFrom\<close> attribute), the object built stores the name
  without its first 7 characters; for every other material with a string name, an
  identifier and a type, the stored name is the name without \<^verbatim>\<open>labeledextract-\<close> when it
  starts with these 15 characters and without its first 8 characters otherwise. The stored
  name of a non-empty name always differs from the raw name; the empty name is stored as
  it is.
\<close>

theorem stored_names_are_sliced:
  "(getitem j ''@id'' = Inr i \<and> getitem j ''name'' = Inr (JStr s) \<longrightarrow>
      build_source j = Inr \<lparr>class_of = Source_class, obj_id = i, obj_name = JStr (drop 7 s)\<rparr>) \<and>
   (getitem j ''@id'' = Inr i \<and> getitem j ''name'' = Inr (JStr s) \<and>
    getitem j ''derivesFrom'' = Inr d \<longrightarrow>
      build_sample j = Inr \<lparr>class_of = Sample_class, obj_id = i, obj_name = JStr (drop 7 s)\<rparr>) \<and>
   (getitem j ''@id'' = Inr i \<and> getitem j ''name'' = Inr (JStr s) \<and>
    getitem j ''type'' = Inr t \<longrightarrow>
      build_material j =
        Inr \<lparr>class_of = Material_class, obj_id = i,
             obj_name = JStr (if prefix ''labeledextract-'' s then drop 15 s else drop 8 s)\<rparr>) \<and>
   (s \<noteq> '''' \<longrightarrow>
      drop 7 s \<noteq> s \<and> (if prefix ''labeledextract-'' s then drop 15 s else drop 8 s) \<noteq> s)"
  by (simp add: build_source_def build_sample_def build_material_def and_then_def
                slice_drop_differs)

theorem stored_names_are_sliced_witness:
  "build_source source_json_ex =
     Inr \<lparr>class_of = Source_class, obj_id = JStr ''#source/1'', obj_name = JStr ''culture1''\<rparr> \<and>
   build_sample sample_json_ex =
     Inr \<lparr>class_of = Sample_class, obj_id = JStr ''#sample/1'', obj_name = JStr ''liver1''\<rparr> \<and>
   build_material labeled_extract_json_ex =
     Inr \<lparr>class_of = Material_class, obj_id = JStr ''#material/2'', obj_name = JStr ''L1''\<rparr> \<and>
   build_material extract_json_ex =
     Inr \<lparr>class_of = Material_class, obj_id = JStr ''#material/1'', obj_name = JStr ''E1''\<rparr>"
  using stored_names_are_sliced
          [of source_json_ex "JStr ''#source/1''" "''source-culture1''"]
        stored_names_are_sliced
          [of sample_json_ex "JStr ''#sample/1''" "''sample-liver1''" "JList []"]
        stored_names_are_sliced
          [of labeled_extract_json_ex "JStr ''#material/2''" "''labeledextract-L1''" d
              "JStr ''Labeled Extract Name''"]
        stored_names_are_sliced
          [of extract_json_ex "JStr ''#material/1''" "''extract-E1''" d "JStr ''Extract Name''"]
  by (simp add: source_json_ex_def sample_json_ex_def labeled_extract_json_ex_def
                extract_json_ex_def)

subsection \<open>The last match wins\<close>

lemma try_lookup_simps:
  "getitem io_json ''@id'' = Inr i \<Longrightarrow> hashable i \<Longrightarrow>
     try_lookup d io_json x = Inr (case d i of Some e \<Rightarrow> Some e | None \<Rightarrow> x)"
  by (simp add: try_lookup_def lookup_def and_then_def split: option.splits)

lemma resolve_study_io_eq:
  "getitem io_json ''@id'' = Inr i \<Longrightarrow> hashable i \<Longrightarrow>
     resolve_study_io io sources_dict samples_dict io_json =
       (case samples_dict i of
          Some e \<Rightarrow> Inr e
        | None \<Rightarrow> (case sources_dict i of
            Some e \<Rightarrow> Inr e
          | None \<Rightarrow>
              raise_IOError (''Could not find '' @ io @ '' node in sources or samples dicts: '')
                io_json))"
  by (simp add: resolve_study_io_def try_lookup_simps try_finally_def and_then_def
           split: option.splits)











subsection \<open>The dictionaries of load\<close>

text \<open>
  The ten dictionaries \<^verbatim>\<open>load\<close> fills with the identifiers of the objects it builds, and
  \<^verbatim>\<open>term_source_dict\<close>, whose keys are the names of the ontology sources. For the
  dictionaries of categories, factors, parameters, units, processes and term sources only
  the keys are modelled; a protocol is kept as the name of its protocol type, which the
  processes of an assay consult. \<^verbatim>\<open>data_dict\<close> and \<^verbatim>\<open>other_materials_dict\<close> are created anew
  for every assay. The extra component \<open>registered\<close> is not a variable of \<^verbatim>\<open>load\<close>: it
  collects every identifier that is written as a key into any of the ten dictionaries, so
  that the identifiers of the per-assay dictionaries are not lost when these are replaced.
\<close>

record registry =
  samples_dict :: "entity dict"
  sources_dict :: "entity dict"
  categories_dict :: "unit dict"
  protocols_dict :: "json dict"
  factors_dict :: "unit dict"
  parameters_dict :: "unit dict"
  units_dict :: "unit dict"
  process_dict :: "unit dict"
  data_dict :: "entity dict"
  other_materials_dict :: "entity dict"
  term_source_dict :: "unit dict"
  registered :: "json set"

text \<open>
  The dictionaries before the first loop: the ten dictionaries are empty and
  \<^verbatim>\<open>term_source_dict\<close> is \<^verbatim>\<open>{'': None}\<close>.
\<close>

definition empty_registry :: registry where
  "empty_registry =
     \<lparr>samples_dict = Map.empty, sources_dict = Map.empty, categories_dict = Map.empty,
      protocols_dict = Map.empty, factors_dict = Map.empty, parameters_dict = Map.empty,
      units_dict = Map.empty, process_dict = Map.empty, data_dict = Map.empty,
      other_materials_dict = Map.empty, term_source_dict = [JStr '''' \<mapsto> ()],
      registered = {}\<rparr>"

text \<open>
  \<^verbatim>\<open>some_dict[i] = obj\<close>: \<open>write\<close> is the update of the dictionary; a list or a dict as
  key raises \<^verbatim>\<open>TypeError\<close>.
\<close>

definition register :: "json \<Rightarrow> (registry \<Rightarrow> registry) \<Rightarrow> registry \<Rightarrow> error + registry" where
  "register i write R =
     (if hashable i then Inr ((write R)\<lparr>registered := insert i (registered R)\<rparr>)
      else Inl TypeError)"

text \<open>\<^verbatim>\<open>for x in parent[key]: body\<close>\<close>

definition for_in :: "json \<Rightarrow> string \<Rightarrow> (json \<Rightarrow> 's \<Rightarrow> error + 's) \<Rightarrow> 's \<Rightarrow> error + 's" where
  "for_in parent key body s =
     and_then (getitem parent key) (\<lambda>v.
     and_then (iter v) (\<lambda>xs. for_each body xs s))"

text \<open>
  The model of \<^verbatim>\<open>load\<close> below follows every loop that writes one of the dictionaries, in
  the order of the source. For each object other than a process it keeps the reads of
  \<^verbatim>\<open>@id\<close> and of the attributes that precede the write, the values that later steps
  consult (the name of the protocol type of a protocol, the name of the technology type of
  an assay) and the dictionary look-ups of samples. The statements in between, which only
  fill further attributes of the objects (investigation and study header fields,
  comments, publications, people, design descriptors, protocol components,
  characteristic and factor values, the second pass over the processes of a study and the
  graphs), are left out; a document on which they raise makes \<^verbatim>\<open>load\<close> return nothing.
  The body of the loop over the processes of a study and of an assay is modelled
  statement by statement. The classes of \<^verbatim>\<open>isatools.model\<close> are not part of these sources:
  their constructors are taken to store their arguments and not to raise.
\<close>

definition register_term_source :: "json \<Rightarrow> registry \<Rightarrow> error + registry" where
  "register_term_source ontologySourceReference_json R =
     and_then (getitem ontologySourceReference_json ''name'') (\<lambda>name.
     and_then (getitem ontologySourceReference_json ''file'') (\<lambda>file.
     and_then (getitem ontologySourceReference_json ''version'') (\<lambda>version.
     and_then (getitem ontologySourceReference_json ''description'') (\<lambda>description.
       if hashable name then Inr (R\<lparr>term_source_dict := (term_source_dict R)(name \<mapsto> ())\<rparr>)
       else Inl TypeError))))"

definition register_category :: "json \<Rightarrow> registry \<Rightarrow> error + registry" where
  "register_category category_json R =
     and_then (getitem category_json ''@id'') (\<lambda>i.
     and_then (getitem category_json ''characteristicType'') (\<lambda>t.
     and_then (getitem t ''annotationValue'') (\<lambda>name.
       register i (\<lambda>R. R\<lparr>categories_dict := (categories_dict R)(i \<mapsto> ())\<rparr>) R)))"

definition register_unit :: "json \<Rightarrow> registry \<Rightarrow> error + registry" where
  "register_unit unit_json R =
     and_then (getitem unit_json ''@id'') (\<lambda>i.
     and_then (getitem unit_json ''annotationValue'') (\<lambda>name.
       register i (\<lambda>R. R\<lparr>units_dict := (units_dict R)(i \<mapsto> ())\<rparr>) R))"

definition register_parameter :: "json \<Rightarrow> registry \<Rightarrow> error + registry" where
  "register_parameter parameter_json R =
     and_then (getitem parameter_json ''@id'') (\<lambda>i.
     and_then (getitem parameter_json ''parameterName'') (\<lambda>n.
     and_then (getitem n ''annotationValue'') (\<lambda>name.
       register i (\<lambda>R. R\<lparr>parameters_dict := (parameters_dict R)(i \<mapsto> ())\<rparr>) R)))"

definition register_protocol :: "json \<Rightarrow> registry \<Rightarrow> error + registry" where
  "register_protocol protocol_json R =
     and_then (getitem protocol_json ''@id'') (\<lambda>i.
     and_then (getitem protocol_json ''name'') (\<lambda>name.
     and_then (getitem protocol_json ''protocolType'') (\<lambda>t.
     and_then (getitem t ''annotationValue'') (\<lambda>protocol_type_name.
     and_then (for_in protocol_json ''parameters'' register_parameter R) (\<lambda>R.
       register i (\<lambda>R. R\<lparr>protocols_dict := (protocols_dict R)(i \<mapsto> protocol_type_name)\<rparr>) R)))))"

definition register_factor :: "json \<Rightarrow> registry \<Rightarrow> error + registry" where
  "register_factor factor_json R =
     and_then (getitem factor_json ''@id'') (\<lambda>i.
     and_then (getitem factor_json ''factorName'') (\<lambda>name.
       register i (\<lambda>R. R\<lparr>factors_dict := (factors_dict R)(i \<mapsto> ())\<rparr>) R))"

definition register_source :: "json \<Rightarrow> registry \<Rightarrow> error + registry" where
  "register_source source_json R =
     and_then (build_source source_json) (\<lambda>source.
       register (obj_id source)
         (\<lambda>R. R\<lparr>sources_dict := (sources_dict R)(obj_id source \<mapsto> source)\<rparr>) R)"

definition register_sample :: "json \<Rightarrow> registry \<Rightarrow> error + registry" where
  "register_sample sample_json R =
     and_then (build_sample sample_json) (\<lambda>sample.
       register (obj_id sample)
         (\<lambda>R. R\<lparr>samples_dict := (samples_dict R)(obj_id sample \<mapsto> sample)\<rparr>) R)"

definition register_data_file :: "json \<Rightarrow> registry \<Rightarrow> error + registry" where
  "register_data_file data_json R =
     and_then (build_data_file data_json) (\<lambda>data_file.
       register (obj_id data_file)
         (\<lambda>R. R\<lparr>data_dict := (data_dict R)(obj_id data_file \<mapsto> data_file)\<rparr>) R)"

definition register_material :: "json \<Rightarrow> registry \<Rightarrow> error + registry" where
  "register_material other_material_json R =
     and_then (build_material other_material_json) (\<lambda>material.
       register (obj_id material)
         (\<lambda>R. R\<lparr>other_materials_dict := (other_materials_dict R)(obj_id material \<mapsto> material)\<rparr>)
         R)"

subsection \<open>The processes of a study and of an assay\<close>

text \<open>
  The statements of the body of the loop over a process sequence that come before the
  loops over the inputs and outputs.
  \<^verbatim>\<open>try: for comment_json in p['comments']: Comment(name=comment_json['name'], value=comment_json['value'])\<close>
  with \<^verbatim>\<open>except KeyError: pass\<close>, and \<^verbatim>\<open>try: process.date = p['date']\<close> with the same
  handler (\<open>read_optional\<close>).
\<close>

definition read_comment :: "json \<Rightarrow> unit \<Rightarrow> error + unit" where
  "read_comment comment_json u =
     and_then (getitem comment_json ''name'') (\<lambda>name.
     and_then (getitem comment_json ''value'') (\<lambda>v. Inr ()))"

definition read_comments :: "json \<Rightarrow> error + unit" where
  "read_comments owner_json = except_KeyError (for_in owner_json ''comments'' read_comment ()) ()"

definition read_optional :: "json \<Rightarrow> string \<Rightarrow> error + unit" where
  "read_optional owner_json key =
     except_KeyError (and_then (getitem owner_json key) (\<lambda>v. Inr ())) ()"

text \<open>
  \<^verbatim>\<open>isinstance(v, int) or isinstance(v, float)\<close>: the numbers of a document, and the bools,
  whose class is a subclass of \<^verbatim>\<open>int\<close>.
\<close>

fun is_number :: "json \<Rightarrow> bool" where
  "is_number (JNum n) = True"
| "is_number (JBool b) = True"
| "is_number _ = False"

text \<open>\<^verbatim>\<open>try: ... except TypeError: handler\<close>\<close>

definition except_TypeError :: "error + 'a \<Rightarrow> (error + 'a) \<Rightarrow> error + 'a" where
  "except_TypeError r handler = (case r of Inl TypeError \<Rightarrow> handler | _ \<Rightarrow> r)"

text \<open>
  \<^verbatim>\<open>OntologyAnnotation(name=pv['value']['annotationValue'], term_accession=pv['value']['termAccession'], term_source=term_source_dict[pv['value']['termSource']])\<close>
\<close>

definition annotation_of_value :: "json \<Rightarrow> registry \<Rightarrow> error + unit" where
  "annotation_of_value parameter_value_json R =
     and_then (getitem parameter_value_json ''value'') (\<lambda>v.
     and_then (getitem v ''annotationValue'') (\<lambda>name.
     and_then (getitem parameter_value_json ''value'') (\<lambda>v.
     and_then (getitem v ''termAccession'') (\<lambda>term_accession.
     and_then (getitem parameter_value_json ''value'') (\<lambda>v.
     and_then (getitem v ''termSource'') (\<lambda>s.
     and_then (lookup (term_source_dict R) s) (\<lambda>term_source. Inr ())))))))"

text \<open>
  The body of the loop over the parameter values of a process: a number takes its category
  and its unit from the dictionaries; any other value takes its category from the
  dictionary and becomes an ontology annotation, or stays as it is when building the
  annotation raises \<^verbatim>\<open>TypeError\<close>.
\<close>

definition read_parameter_value :: "registry \<Rightarrow> json \<Rightarrow> unit \<Rightarrow> error + unit" where
  "read_parameter_value R parameter_value_json u =
     and_then (getitem parameter_value_json ''value'') (\<lambda>v.
       if is_number v then
         and_then (getitem parameter_value_json ''category'') (\<lambda>c.
         and_then (getitem c ''@id'') (\<lambda>category_id.
         and_then (lookup (parameters_dict R) category_id) (\<lambda>category.
         and_then (getitem parameter_value_json ''value'') (\<lambda>v.
         and_then (getitem parameter_value_json ''unit'') (\<lambda>unit_json.
         and_then (getitem unit_json ''@id'') (\<lambda>unit_id.
         and_then (lookup (units_dict R) unit_id) (\<lambda>unit. Inr ())))))))
       else
         and_then (getitem parameter_value_json ''category'') (\<lambda>c.
         and_then (getitem c ''@id'') (\<lambda>category_id.
         and_then (lookup (parameters_dict R) category_id) (\<lambda>category.
           except_TypeError (annotation_of_value parameter_value_json R)
             (and_then (getitem parameter_value_json ''value'') (\<lambda>v. Inr ()))))))"

text \<open>
  In an assay the parameter value of the category \<^verbatim>\<open>#parameter/Array_Design_REF\<close> is
  stored as an additional property of the process.
\<close>

definition read_assay_parameter_value :: "registry \<Rightarrow> json \<Rightarrow> unit \<Rightarrow> error + unit" where
  "read_assay_parameter_value R parameter_value_json u =
     and_then (getitem parameter_value_json ''category'') (\<lambda>c.
     and_then (getitem c ''@id'') (\<lambda>category_id.
       if category_id = JStr ''#parameter/Array_Design_REF'' then
         and_then (getitem parameter_value_json ''value'') (\<lambda>v. Inr ())
       else read_parameter_value R parameter_value_json u))"

definition study_resolve :: "registry \<Rightarrow> string \<Rightarrow> json \<Rightarrow> error + entity" where
  "study_resolve R io = resolve_study_io io (sources_dict R) (samples_dict R)"

definition assay_resolve :: "registry \<Rightarrow> string \<Rightarrow> json \<Rightarrow> error + entity" where
  "assay_resolve R io =
     resolve_assay_io io (samples_dict R) (other_materials_dict R) (data_dict R)"

text \<open>
  A process of a study, up to the loops over its inputs and outputs:
  \<^verbatim>\<open>Process(id_=p['@id'], executes_protocol=protocols_dict[p['executesProtocol']['@id']])\<close>,
  the comments, the date, the performer and the parameter values. The result is the
  identifier of the process.
\<close>

definition study_process_preamble :: "json \<Rightarrow> registry \<Rightarrow> error + json" where
  "study_process_preamble study_process_json R =
     and_then (getitem study_process_json ''@id'') (\<lambda>i.
     and_then (getitem study_process_json ''executesProtocol'') (\<lambda>p.
     and_then (getitem p ''@id'') (\<lambda>protocol_id.
     and_then (lookup (protocols_dict R) protocol_id) (\<lambda>executes_protocol.
     and_then (read_comments study_process_json) (\<lambda>u.
     and_then (read_optional study_process_json ''date'') (\<lambda>u.
     and_then (read_optional study_process_json ''performer'') (\<lambda>u.
     and_then (for_in study_process_json ''parameterValues'' (read_parameter_value R) ()) (\<lambda>u.
       Inr i))))))))"

text \<open>
  The whole body of the loop over the processes of a study: after the statements above,
  the loops over the inputs and outputs, and \<^verbatim>\<open>process_dict[process.id] = process\<close>.
\<close>

definition register_study_process :: "json \<Rightarrow> registry \<Rightarrow> error + registry" where
  "register_study_process study_process_json R =
     and_then (study_process_preamble study_process_json R) (\<lambda>i.
     and_then (resolve_process_io (study_resolve R) study_process_json) (\<lambda>io.
       register i (\<lambda>R. R\<lparr>process_dict := (process_dict R)(i \<mapsto> ())\<rparr>) R))"

text \<open>
  The additional properties of a process of an assay: for five kinds of protocol,
  of which the first also depends on the technology type of the assay, the name of the
  process is read.
\<close>

definition read_additional_properties :: "json \<Rightarrow> json \<Rightarrow> json \<Rightarrow> error + unit" where
  "read_additional_properties protocol_type_name technology_type_name assay_process_json =
     (if protocol_type_name = JStr ''data collection'' \<and>
         technology_type_name = JStr ''DNA microarray'' then
        and_then (getitem assay_process_json ''name'') (\<lambda>name. Inr ())
      else if protocol_type_name = JStr ''nucleic acid sequencing'' then
        and_then (getitem assay_process_json ''name'') (\<lambda>name. Inr ())
      else if protocol_type_name = JStr ''nucleic acid hybridization'' then
        and_then (getitem assay_process_json ''name'') (\<lambda>name. Inr ())
      else if protocol_type_name = JStr ''data transformation'' then
        and_then (getitem assay_process_json ''name'') (\<lambda>name. Inr ())
      else if protocol_type_name = JStr ''data normalization'' then
        and_then (getitem assay_process_json ''name'') (\<lambda>name. Inr ())
      else Inr ())"

text \<open>
  A process of an assay, up to the loops over its inputs and outputs: the constructor
  call, the comments and the additional properties.
\<close>

definition assay_process_preamble :: "json \<Rightarrow> json \<Rightarrow> registry \<Rightarrow> error + json" where
  "assay_process_preamble technology_type_name assay_process_json R =
     and_then (getitem assay_process_json ''@id'') (\<lambda>i.
     and_then (getitem assay_process_json ''executesProtocol'') (\<lambda>p.
     and_then (getitem p ''@id'') (\<lambda>protocol_id.
     and_then (lookup (protocols_dict R) protocol_id) (\<lambda>protocol_type_name.
     and_then (read_comments assay_process_json) (\<lambda>u.
     and_then (read_additional_properties protocol_type_name technology_type_name
                 assay_process_json) (\<lambda>u.
       Inr i))))))"

text \<open>
  The second pass over the processes of the assay, which is part of the body of the loop
  over the processes: \<^verbatim>\<open>try: prev_proc = q['previousProcess']['@id']; process_dict[q['@id']].prev_process = process_dict[prev_proc]\<close>
  with \<^verbatim>\<open>except KeyError: pass\<close>, and the same for \<^verbatim>\<open>nextProcess\<close>.
\<close>

definition link_process :: "string \<Rightarrow> registry \<Rightarrow> json \<Rightarrow> error + unit" where
  "link_process key R assay_process_json =
     except_KeyError
       (and_then (getitem assay_process_json key) (\<lambda>other.
        and_then (getitem other ''@id'') (\<lambda>other_id.
        and_then (lookup (process_dict R) other_id) (\<lambda>other_process.
        and_then (getitem assay_process_json ''@id'') (\<lambda>i.
        and_then (lookup (process_dict R) i) (\<lambda>process. Inr ()))))))
       ()"

definition second_pass :: "json \<Rightarrow> registry \<Rightarrow> error + unit" where
  "second_pass assay_json R =
     for_in assay_json ''processSequence''
       (\<lambda>assay_process_json u.
          and_then (link_process ''previousProcess'' R assay_process_json) (\<lambda>u.
            link_process ''nextProcess'' R assay_process_json))
       ()"

text \<open>
  The whole body of the loop over the processes of an assay: after the statements before
  the loops over the inputs and outputs come these loops, the parameter values,
  \<^verbatim>\<open>process_dict[process.id] = process\<close> and the second pass.
\<close>

definition register_assay_process :: "json \<Rightarrow> json \<Rightarrow> json \<Rightarrow> registry \<Rightarrow> error + registry" where
  "register_assay_process assay_json technology_type_name assay_process_json R =
     and_then (assay_process_preamble technology_type_name assay_process_json R) (\<lambda>i.
     and_then (resolve_process_io (assay_resolve R) assay_process_json) (\<lambda>io.
     and_then (for_in assay_process_json ''parameterValues'' (read_assay_parameter_value R) ())
       (\<lambda>u.
     and_then (register i (\<lambda>R. R\<lparr>process_dict := (process_dict R)(i \<mapsto> ())\<rparr>) R) (\<lambda>R.
     and_then (second_pass assay_json R) (\<lambda>u. Inr R)))))"

subsection \<open>Studies and assays\<close>

text \<open>\<^verbatim>\<open>sample = samples_dict[sample_json['@id']]\<close> for the samples an assay lists.\<close>

definition lookup_sample :: "json \<Rightarrow> registry \<Rightarrow> error + registry" where
  "lookup_sample sample_json R =
     and_then (getitem sample_json ''@id'') (\<lambda>i.
     and_then (lookup (samples_dict R) i) (\<lambda>sample. Inr R))"

definition load_assay :: "json \<Rightarrow> registry \<Rightarrow> error + registry" where
  "load_assay assay_json R =
     and_then (getitem assay_json ''technologyType'') (\<lambda>t.
     and_then (getitem t ''annotationValue'') (\<lambda>technology_type_name.
     and_then (for_in assay_json ''unitCategories'' register_unit R) (\<lambda>R.
     and_then (for_in assay_json ''dataFiles'' register_data_file (R\<lparr>data_dict := Map.empty\<rparr>))
       (\<lambda>R.
     and_then (getitem assay_json ''materials'') (\<lambda>materials.
     and_then (for_in materials ''samples'' lookup_sample R) (\<lambda>R.
     and_then (for_in assay_json ''characteristicCategories'' register_category R) (\<lambda>R.
     and_then (getitem assay_json ''materials'') (\<lambda>materials.
     and_then (for_in materials ''otherMaterials'' register_material
                 (R\<lparr>other_materials_dict := Map.empty\<rparr>)) (\<lambda>R.
       for_in assay_json ''processSequence''
         (register_assay_process assay_json technology_type_name) R)))))))))"

definition load_study :: "json \<Rightarrow> registry \<Rightarrow> error + registry" where
  "load_study study_json R =
     and_then (for_in study_json ''characteristicCategories'' register_category R) (\<lambda>R.
     and_then (for_in study_json ''unitCategories'' register_unit R) (\<lambda>R.
     and_then (for_in study_json ''protocols'' register_protocol R) (\<lambda>R.
     and_then (for_in study_json ''factors'' register_factor R) (\<lambda>R.
     and_then (getitem study_json ''materials'') (\<lambda>materials.
     and_then (for_in materials ''sources'' register_source R) (\<lambda>R.
     and_then (getitem study_json ''materials'') (\<lambda>materials.
     and_then (for_in materials ''samples'' register_sample R) (\<lambda>R.
     and_then (for_in study_json ''processSequence'' register_study_process R) (\<lambda>R.
       for_in study_json ''assays'' load_assay R)))))))))"

text \<open>
  \<^verbatim>\<open>load\<close>: the ontology sources, then the characteristic categories of all assays, then
  the studies.
\<close>

definition load :: "json \<Rightarrow> error + registry" where
  "load isajson =
     and_then (for_in isajson ''ontologySourceReferences'' register_term_source empty_registry)
       (\<lambda>R.
     and_then (for_in isajson ''studies''
                 (\<lambda>study_json. for_in study_json ''assays''
                    (\<lambda>assay_json. for_in assay_json ''characteristicCategories'' register_category))
                 R) (\<lambda>R.
       for_in isajson ''studies'' load_study R))"

text \<open>
  An investigation without studies whose only publication carries a status annotation
  with an identifier, and an investigation with one study that declares a protocol, a
  source and a sample and has one process from the source to the sample.
\<close>

definition status_doc :: json where
  "status_doc = JDict
     [(''identifier'', JStr ''i1''), (''title'', JStr ''t''), (''description'', JStr ''''),
      (''submissionDate'', JStr ''''), (''publicReleaseDate'', JStr ''''),
      (''comments'', JList []), (''ontologySourceReferences'', JList []),
      (''publications'',
         JList [JDict [(''pubMedID'', JStr ''''), (''doi'', JStr ''''),
                       (''authorList'', JStr ''''), (''title'', JStr ''''),
                       (''status'', JDict [(''@id'', JStr ''#status/1''),
                                           (''annotationValue'', JStr ''published''),
                                           (''termAccession'', JStr ''''),
                                           (''termSource'', JStr '''')])]]),
      (''people'', JList []), (''studies'', JList [])]"

definition annotation_ex :: "string \<Rightarrow> json" where
  "annotation_ex v = JDict [(''annotationValue'', JStr v), (''termAccession'', JStr ''''),
                            (''termSource'', JStr '''')]"

definition study_doc :: json where
  "study_doc = JDict
     [(''identifier'', JStr ''i1''), (''title'', JStr ''t''), (''description'', JStr ''''),
      (''submissionDate'', JStr ''''), (''publicReleaseDate'', JStr ''''),
      (''comments'', JList []), (''ontologySourceReferences'', JList []),
      (''publications'', JList []), (''people'', JList []),
      (''studies'', JList [JDict
         [(''identifier'', JStr ''s1''), (''title'', JStr ''''), (''description'', JStr ''''),
          (''submissionDate'', JStr ''''), (''publicReleaseDate'', JStr ''''),
          (''filename'', JStr ''s_1.txt''),
          (''characteristicCategories'', JList []), (''unitCategories'', JList []),
          (''publications'', JList []), (''people'', JList []),
          (''studyDesignDescriptors'', JList []),
          (''protocols'', JList [JDict
             [(''@id'', JStr ''#protocol/1''), (''name'', JStr ''sample collection''),
              (''uri'', JStr ''''), (''description'', JStr ''''), (''version'', JStr ''''),
              (''protocolType'', annotation_ex ''sample collection''),
              (''parameters'', JList []), (''components'', JList [])]]),
          (''factors'', JList []),
          (''materials'', JDict
             [(''sources'', JList [JDict
                 [(''@id'', JStr ''#source/1''), (''name'', JStr ''source-culture1''),
                  (''characteristics'', JList [])]]),
              (''samples'', JList [JDict
                 [(''@id'', JStr ''#sample/1''), (''name'', JStr ''sample-liver1''),
                  (''derivesFrom'', JList [JDict [(''@id'', JStr ''#source/1'')]]),
                  (''characteristics'', JList []), (''factorValues'', JList [])]])]),
          (''processSequence'', JList [JDict
             [(''@id'', JStr ''#process/1''),
              (''executesProtocol'', JDict [(''@id'', JStr ''#protocol/1'')]),
              (''parameterValues'', JList []),
              (''inputs'', JList [JDict [(''@id'', JStr ''#source/1'')]]),
              (''outputs'', JList [JDict [(''@id'', JStr ''#sample/1'')]])]]),
          (''assays'', JList [])]])]"

subsection \<open>Declarations found by the walker\<close>

text \<open>The values nested in a document, and the dicts that declare an identifier.\<close>

inductive_set reach :: "json \<Rightarrow> json set" for doc :: json where
  root: "doc \<in> reach doc"
| item: "JList xs \<in> reach doc \<Longrightarrow> x \<in> set xs \<Longrightarrow> x \<in> reach doc"
| field: "JDict kvs \<in> reach doc \<Longrightarrow> v \<in> set (values_of kvs) \<Longrightarrow> v \<in> reach doc"

definition declares :: "json \<Rightarrow> json \<Rightarrow> bool" where
  "declares d i \<longleftrightarrow>
     (\<exists>kvs. d = JDict kvs \<and> map_of kvs ''@id'' = Some i \<and> len_set_keys kvs > 1)"

lemma collect_mono: "set object_refs \<subseteq> set (collect_object_refs j object_refs)"
proof (induction j object_refs rule: collect_object_refs.induct)
  case (1 kvs object_refs)
  show ?case
    unfolding collect_object_refs.simps
  proof (rule fold_invariant [where I = "\<lambda>r. set object_refs \<subseteq> set r"])
    show "set object_refs \<subseteq> set (if ''@id'' \<in> set (keys kvs) \<and> len_set_keys kvs > 1 then
          (case map_of kvs ''@id'' of
             Some i \<Rightarrow> if i \<notin> set object_refs then object_refs @ [i] else object_refs
           | None \<Rightarrow> object_refs)
        else object_refs)"
      by (auto split: option.splits)
  next
    fix x s
    assume "x \<in> set (values_of kvs)" "set object_refs \<subseteq> set s"
    then show "set object_refs \<subseteq> set (collect_object_refs x s)"
      using "1.IH" [of x s] by blast
  qed
next
  case (2 js object_refs)
  show ?case
    unfolding collect_object_refs.simps
  proof (rule fold_invariant [where I = "\<lambda>r. set object_refs \<subseteq> set r"])
    show "set object_refs \<subseteq> set object_refs" by simp
  next
    fix x s
    assume "x \<in> set js" "set object_refs \<subseteq> set s"
    then show "set object_refs \<subseteq> set (collect_object_refs x s)"
      using "2.IH" [of x s] by blast
  qed
qed simp_all

lemma fold_collect_mono: "set refs \<subseteq> set (fold collect_object_refs xs refs)"
  by (rule fold_invariant [where I = "\<lambda>r. set refs \<subseteq> set r"])
     (use collect_mono in blast)+

lemma fold_collect_member:
  assumes "x \<in> set xs" and "\<And>refs. i \<in> set (collect_object_refs x refs)"
  shows "i \<in> set (fold collect_object_refs xs refs)"
proof -
  from assms(1) obtain ys zs where xs: "xs = ys @ x # zs"
    by (auto simp: in_set_conv_decomp)
  have "i \<in> set (collect_object_refs x (fold collect_object_refs ys refs))"
    by (rule assms(2))
  then have "i \<in> set (fold collect_object_refs zs
                        (collect_object_refs x (fold collect_object_refs ys refs)))"
    using fold_collect_mono by blast
  then show ?thesis by (simp add: xs)
qed

lemma collect_declared:
  assumes "declares d i"
  shows "i \<in> set (collect_object_refs d refs)"
proof -
  from assms obtain kvs where d: "d = JDict kvs" and i: "map_of kvs ''@id'' = Some i"
    and n: "len_set_keys kvs > 1"
    by (auto simp: declares_def)
  from i have k: "''@id'' \<in> set (keys kvs)"
    by (auto simp: keys_def dest: map_of_SomeD intro: rev_image_eqI)
  define refs0 where "refs0 = (if i \<notin> set refs then refs @ [i] else refs)"
  have "i \<in> set refs0" by (simp add: refs0_def)
  then have "i \<in> set (fold collect_object_refs (values_of kvs) refs0)"
    using fold_collect_mono [of refs0 "values_of kvs"] by blast
  then show ?thesis
    using k n i by (simp add: d refs0_def)
qed

lemma collect_reach:
  assumes "d \<in> reach doc" and "\<And>refs. i \<in> set (collect_object_refs d refs)"
  shows "i \<in> set (collect_object_refs doc refs)"
  using assms
proof (induction arbitrary: refs rule: reach.induct)
  case root
  then show ?case by simp
next
  case (item xs x)
  have "\<And>refs. i \<in> set (collect_object_refs (JList xs) refs)"
    using fold_collect_member [OF item.hyps(2) item.prems] by simp
  then show ?case by (rule item.IH)
next
  case (field kvs v)
  have "\<And>refs. i \<in> set (collect_object_refs (JDict kvs) refs)"
    unfolding collect_object_refs.simps
    by (rule fold_collect_member [OF field.hyps(2) field.prems])
  then show ?case by (rule field.IH)
qed

lemma declared_collected:
  "d \<in> reach doc \<Longrightarrow> declares d i \<Longrightarrow> i \<in> set (collect_object_refs doc refs)"
proof -
  assume r: "d \<in> reach doc" and d: "declares d i"
  have "\<And>refs. i \<in> set (collect_object_refs d refs)"
    by (rule collect_declared [OF d])
  with r show ?thesis by (rule collect_reach)
qed

subsection \<open>Identifiers registered by load\<close>

definition declared_ids :: "json \<Rightarrow> json set" where
  "declared_ids doc = {i. \<exists>d \<in> reach doc. declares d i}"

lemma and_thenE:
  assumes "and_then m f = Inr y"
  obtains x where "m = Inr x" and "f x = Inr y"
  using assms by (cases m) (auto simp: and_then_def)

lemma getitem_dict:
  assumes "getitem x k = Inr v"
  obtains kvs where "x = JDict kvs" and "map_of kvs k = Some v"
  using assms by (cases x) (auto split: option.splits)

lemma reach_getitem: "p \<in> reach doc \<Longrightarrow> getitem p k = Inr v \<Longrightarrow> v \<in> reach doc"
proof -
  assume r: "p \<in> reach doc" and g: "getitem p k = Inr v"
  from g obtain kvs where p: "p = JDict kvs" and m: "map_of kvs k = Some v"
    by (rule getitem_dict)
  from m have "(k, v) \<in> set kvs" by (rule map_of_SomeD)
  then have "v \<in> set (values_of kvs)" by (force simp: values_of_def)
  with r show ?thesis unfolding p by (rule reach.field)
qed

lemma reach_iter:
  assumes "p \<in> reach doc" and "iter p = Inr xs" and "x \<in> set xs" and "getitem x k = Inr v"
  shows "x \<in> reach doc"
proof -
  from assms(4) obtain kvs where x: "x = JDict kvs" by (rule getitem_dict)
  show ?thesis
  proof (cases p)
    case (JList ys)
    with assms(2) have "xs = ys" by simp
    with assms(1,3) JList show ?thesis by (auto intro: reach.item)
  next
    case (JDict kvs')
    with assms(2) have "xs = map JStr (keys kvs')" by simp
    with assms(3) x show ?thesis by auto
  next
    case (JStr s)
    with assms(2) have "xs = map (\<lambda>c. JStr [c]) s" by simp
    with assms(3) x show ?thesis by auto
  next
    case JNull
    with assms(2) show ?thesis by simp
  next
    case (JBool b)
    with assms(2) show ?thesis by simp
  next
    case (JNum n)
    with assms(2) show ?thesis by simp
  qed
qed

lemma two_keys:
  assumes "map_of kvs a = Some v" and "map_of kvs b = Some w" and "a \<noteq> b"
  shows "len_set_keys kvs > 1"
proof -
  have "a \<in> set (keys kvs)" "b \<in> set (keys kvs)"
    using assms by (auto simp: keys_def dest!: map_of_SomeD intro: rev_image_eqI)
  then have "{a, b} \<subseteq> set (keys kvs)" by simp
  then have "card {a, b} \<le> card (set (keys kvs))"
    by (intro card_mono) auto
  with \<open>a \<noteq> b\<close> show ?thesis
    by (simp add: len_set_keys_def length_remdups_card_conv)
qed

lemma getitem_declares:
  assumes "getitem x ''@id'' = Inr i" and "getitem x k = Inr v" and "k \<noteq> ''@id''"
  shows "declares x i"
proof -
  from assms(1) obtain kvs where x: "x = JDict kvs" and i: "map_of kvs ''@id'' = Some i"
    by (rule getitem_dict)
  from assms(2) x have "map_of kvs k = Some v"
    by (auto split: option.splits)
  with i assms(3) have "len_set_keys kvs > 1"
    using two_keys [of kvs "''@id''" i k v] by simp
  with x i show ?thesis by (auto simp: declares_def)
qed

text \<open>
  A step is sound for a document when it only registers identifiers declared in the
  document, provided the object it works on is nested in the document.
\<close>

definition sound :: "json \<Rightarrow> (json \<Rightarrow> registry \<Rightarrow> error + registry) \<Rightarrow> bool" where
  "sound doc body \<longleftrightarrow>
     (\<forall>x R R'. x \<in> reach doc \<longrightarrow> registered R \<subseteq> declared_ids doc \<longrightarrow> body x R = Inr R' \<longrightarrow>
        registered R' \<subseteq> declared_ids doc)"

lemma soundD:
  "sound doc body \<Longrightarrow> x \<in> reach doc \<Longrightarrow> registered R \<subseteq> declared_ids doc \<Longrightarrow>
   body x R = Inr R' \<Longrightarrow> registered R' \<subseteq> declared_ids doc"
  unfolding sound_def by blast

lemma register_sound:
  assumes "register i write R = Inr R'" and "registered R \<subseteq> declared_ids doc"
    and "x \<in> reach doc" and "declares x i"
  shows "registered R' \<subseteq> declared_ids doc"
  using assms by (auto simp: register_def declared_ids_def split: if_splits)

lemma for_each_sound:
  assumes "for_each body xs R = Inr R'" and "registered R \<subseteq> declared_ids doc"
    and "\<And>x R R'. x \<in> set xs \<Longrightarrow> registered R \<subseteq> declared_ids doc \<Longrightarrow> body x R = Inr R' \<Longrightarrow>
           registered R' \<subseteq> declared_ids doc"
  shows "registered R' \<subseteq> declared_ids doc"
  using assms
proof (induction xs arbitrary: R)
  case Nil
  then show ?case by simp
next
  case (Cons x xs)
  from Cons.prems(1) have "and_then (body x R) (for_each body xs) = Inr R'" by simp
  then obtain R1 where 1: "body x R = Inr R1" and 2: "for_each body xs R1 = Inr R'"
    by (rule and_thenE)
  have "registered R1 \<subseteq> declared_ids doc"
    using Cons.prems(3) [OF _ Cons.prems(2) 1] by simp
  show ?case
  proof (rule Cons.IH [OF 2 \<open>registered R1 \<subseteq> declared_ids doc\<close>])
    fix y S S'
    assume "y \<in> set xs" "registered S \<subseteq> declared_ids doc" "body y S = Inr S'"
    then show "registered S' \<subseteq> declared_ids doc"
      using Cons.prems(3) [of y S S'] by simp
  qed
qed

text \<open>
  A loop body applied to an element that is not a dict raises at its first subscript, so
  only elements nested in the document matter.
\<close>

definition subscripts :: "(json \<Rightarrow> registry \<Rightarrow> error + registry) \<Rightarrow> bool" where
  "subscripts body \<longleftrightarrow> (\<forall>x R R'. body x R = Inr R' \<longrightarrow> (\<exists>k v. getitem x k = Inr v))"

lemma for_in_sound:
  assumes "for_in parent key body R = Inr R'" and "parent \<in> reach doc"
    and "registered R \<subseteq> declared_ids doc" and "sound doc body" and "subscripts body"
  shows "registered R' \<subseteq> declared_ids doc"
proof -
  from assms(1) obtain v where v: "getitem parent key = Inr v"
    and 1: "and_then (iter v) (\<lambda>xs. for_each body xs R) = Inr R'"
    unfolding for_in_def by (rule and_thenE)
  from 1 obtain xs where xs: "iter v = Inr xs" and l: "for_each body xs R = Inr R'"
    by (rule and_thenE)
  have rv: "v \<in> reach doc" by (rule reach_getitem [OF assms(2) v])
  show ?thesis
  proof (rule for_each_sound [OF l assms(3)])
    fix x S S'
    assume x: "x \<in> set xs" and S: "registered S \<subseteq> declared_ids doc" and b: "body x S = Inr S'"
    from assms(5) b obtain k w where "getitem x k = Inr w"
      unfolding subscripts_def by blast
    then have "x \<in> reach doc" by (rule reach_iter [OF rv xs x])
    then show "registered S' \<subseteq> declared_ids doc"
      by (rule soundD [OF assms(4) _ S b])
  qed
qed

lemma for_in_subscripts: "for_in parent key body R = Inr R' \<Longrightarrow> \<exists>k v. getitem parent k = Inr v"
  unfolding for_in_def by (erule and_thenE) blast

lemma register_declared:
  assumes "register i write R = Inr R'" and "registered R \<subseteq> declared_ids doc"
    and "x \<in> reach doc" and "getitem x ''@id'' = Inr i" and "getitem x k = Inr v"
    and "k \<noteq> ''@id''"
  shows "registered R' \<subseteq> declared_ids doc"
  using assms(1,2,3) getitem_declares [OF assms(4,5,6)] by (rule register_sound)

lemma register_category_sound: "sound doc register_category"
  unfolding sound_def register_category_def
proof (intro allI impI)
  fix x R R'
  assume x: "x \<in> reach doc" and R: "registered R \<subseteq> declared_ids doc"
    and b: "and_then (getitem x ''@id'') (\<lambda>i.
     and_then (getitem x ''characteristicType'') (\<lambda>t.
     and_then (getitem t ''annotationValue'') (\<lambda>name.
       register i (\<lambda>R. R\<lparr>categories_dict := (categories_dict R)(i \<mapsto> ())\<rparr>) R))) = Inr R'"
  from b obtain i t name where i: "getitem x ''@id'' = Inr i"
    and t: "getitem x ''characteristicType'' = Inr t"
    and r: "register i (\<lambda>R. R\<lparr>categories_dict := (categories_dict R)(i \<mapsto> ())\<rparr>) R = Inr R'"
    by (elim and_thenE)
  show "registered R' \<subseteq> declared_ids doc"
    by (rule register_declared [OF r R x i t]) simp
qed

lemma register_unit_sound: "sound doc register_unit"
  unfolding sound_def register_unit_def
proof (intro allI impI)
  fix x R R'
  assume x: "x \<in> reach doc" and R: "registered R \<subseteq> declared_ids doc"
    and b: "and_then (getitem x ''@id'') (\<lambda>i.
     and_then (getitem x ''annotationValue'') (\<lambda>name.
       register i (\<lambda>R. R\<lparr>units_dict := (units_dict R)(i \<mapsto> ())\<rparr>) R)) = Inr R'"
  from b obtain i t where i: "getitem x ''@id'' = Inr i"
    and t: "getitem x ''annotationValue'' = Inr t"
    and r: "register i (\<lambda>R. R\<lparr>units_dict := (units_dict R)(i \<mapsto> ())\<rparr>) R = Inr R'"
    by (elim and_thenE)
  show "registered R' \<subseteq> declared_ids doc"
    by (rule register_declared [OF r R x i t]) simp
qed

lemma register_parameter_sound: "sound doc register_parameter"
  unfolding sound_def register_parameter_def
proof (intro allI impI)
  fix x R R'
  assume x: "x \<in> reach doc" and R: "registered R \<subseteq> declared_ids doc"
    and b: "and_then (getitem x ''@id'') (\<lambda>i.
     and_then (getitem x ''parameterName'') (\<lambda>n.
     and_then (getitem n ''annotationValue'') (\<lambda>name.
       register i (\<lambda>R. R\<lparr>parameters_dict := (parameters_dict R)(i \<mapsto> ())\<rparr>) R))) = Inr R'"
  from b obtain i t name where i: "getitem x ''@id'' = Inr i"
    and t: "getitem x ''parameterName'' = Inr t"
    and r: "register i (\<lambda>R. R\<lparr>parameters_dict := (parameters_dict R)(i \<mapsto> ())\<rparr>) R = Inr R'"
    by (elim and_thenE)
  show "registered R' \<subseteq> declared_ids doc"
    by (rule register_declared [OF r R x i t]) simp
qed

lemma register_factor_sound: "sound doc register_factor"
  unfolding sound_def register_factor_def
proof (intro allI impI)
  fix x R R'
  assume x: "x \<in> reach doc" and R: "registered R \<subseteq> declared_ids doc"
    and b: "and_then (getitem x ''@id'') (\<lambda>i.
     and_then (getitem x ''factorName'') (\<lambda>name.
       register i (\<lambda>R. R\<lparr>factors_dict := (factors_dict R)(i \<mapsto> ())\<rparr>) R)) = Inr R'"
  from b obtain i t where i: "getitem x ''@id'' = Inr i"
    and t: "getitem x ''factorName'' = Inr t"
    and r: "register i (\<lambda>R. R\<lparr>factors_dict := (factors_dict R)(i \<mapsto> ())\<rparr>) R = Inr R'"
    by (elim and_thenE)
  show "registered R' \<subseteq> declared_ids doc"
    by (rule register_declared [OF r R x i t]) simp
qed

lemma subscripts_first:
  assumes "\<And>x R. body x R = and_then (getitem x k) (rest x R)"
  shows "subscripts body"
  unfolding subscripts_def
proof (intro allI impI)
  fix x R R'
  assume "body x R = Inr R'"
  then have "and_then (getitem x k) (rest x R) = Inr R'" by (simp add: assms)
  then obtain v where "getitem x k = Inr v" by (rule and_thenE)
  then show "\<exists>k v. getitem x k = Inr v" by blast
qed

lemma preamble_reads:
  "study_process_preamble x R = Inr i \<Longrightarrow>
     getitem x ''@id'' = Inr i \<and> (\<exists>p. getitem x ''executesProtocol'' = Inr p)"
  "assay_process_preamble technology_type_name x R = Inr i \<Longrightarrow>
     getitem x ''@id'' = Inr i \<and> (\<exists>p. getitem x ''executesProtocol'' = Inr p)"
proof -
  assume "study_process_preamble x R = Inr i"
  then obtain j p where "getitem x ''@id'' = Inr j" "getitem x ''executesProtocol'' = Inr p"
    "(Inr j :: error + json) = Inr i"
    unfolding study_process_preamble_def by (elim and_thenE)
  then show "getitem x ''@id'' = Inr i \<and> (\<exists>p. getitem x ''executesProtocol'' = Inr p)"
    by auto
next
  assume "assay_process_preamble technology_type_name x R = Inr i"
  then obtain j p where "getitem x ''@id'' = Inr j" "getitem x ''executesProtocol'' = Inr p"
    "(Inr j :: error + json) = Inr i"
    unfolding assay_process_preamble_def by (elim and_thenE)
  then show "getitem x ''@id'' = Inr i \<and> (\<exists>p. getitem x ''executesProtocol'' = Inr p)"
    by auto
qed

lemma subscripts_process:
  "subscripts register_study_process"
  "subscripts (register_assay_process assay_json technology_type_name)"
  unfolding subscripts_def
proof (intro allI impI)
  fix x R R'
  assume "register_study_process x R = Inr R'"
  then obtain i where "study_process_preamble x R = Inr i"
    unfolding register_study_process_def by (elim and_thenE)
  then show "\<exists>k v. getitem x k = Inr v" using preamble_reads(1) by blast
next
  show "\<forall>x R R'. register_assay_process assay_json technology_type_name x R = Inr R' \<longrightarrow>
                  (\<exists>k v. getitem x k = Inr v)"
  proof (intro allI impI)
    fix x R R'
    assume "register_assay_process assay_json technology_type_name x R = Inr R'"
    then obtain i where "assay_process_preamble technology_type_name x R = Inr i"
      unfolding register_assay_process_def by (elim and_thenE)
    then show "\<exists>k v. getitem x k = Inr v" using preamble_reads(2) by blast
  qed
qed

lemma subscripts_register:
  "subscripts register_category" "subscripts register_unit" "subscripts register_parameter"
  "subscripts register_factor" "subscripts register_protocol" "subscripts lookup_sample"
  "subscripts register_term_source"
  by (rule subscripts_first, simp add: register_category_def,
      rule subscripts_first, simp add: register_unit_def,
      rule subscripts_first, simp add: register_parameter_def,
      rule subscripts_first, simp add: register_factor_def,
      rule subscripts_first, simp add: register_protocol_def,
      rule subscripts_first, simp add: lookup_sample_def,
      rule subscripts_first, simp add: register_term_source_def)

lemma register_term_source_sound: "sound doc register_term_source"
  unfolding sound_def
proof (intro allI impI)
  fix x R R'
  assume R: "registered R \<subseteq> declared_ids doc" and b: "register_term_source x R = Inr R'"
  from b obtain name where
    "(if hashable name then Inr (R\<lparr>term_source_dict := (term_source_dict R)(name \<mapsto> ())\<rparr>)
      else Inl TypeError) = Inr R'"
    unfolding register_term_source_def by (elim and_thenE)
  then have "registered R' = registered R" by (auto split: if_splits)
  with R show "registered R' \<subseteq> declared_ids doc" by simp
qed

lemma register_protocol_sound: "sound doc register_protocol"
  unfolding sound_def
proof (intro allI impI)
  fix x R R'
  assume x: "x \<in> reach doc" and R: "registered R \<subseteq> declared_ids doc"
    and b: "register_protocol x R = Inr R'"
  from b obtain i t pt n R1 where i: "getitem x ''@id'' = Inr i"
    and t: "getitem x ''name'' = Inr t"
    and l: "for_in x ''parameters'' register_parameter R = Inr R1"
    and r: "register i (\<lambda>R. R\<lparr>protocols_dict := (protocols_dict R)(i \<mapsto> n)\<rparr>) R1 = Inr R'"
    unfolding register_protocol_def by (elim and_thenE)
  have R1: "registered R1 \<subseteq> declared_ids doc"
    by (rule for_in_sound [OF l x R register_parameter_sound subscripts_register(3)])
  show "registered R' \<subseteq> declared_ids doc"
    by (rule register_declared [OF r R1 x i t]) simp
qed

text \<open>The builders read the identifier and at least one more attribute.\<close>

lemma build_source_reads:
  assumes "build_source x = Inr e"
  shows "getitem x ''@id'' = Inr (obj_id e) \<and> (\<exists>n. getitem x ''name'' = Inr n)"
proof -
  from assms obtain i n name where "getitem x ''@id'' = Inr i" "getitem x ''name'' = Inr n"
    "Inr \<lparr>class_of = Source_class, obj_id = i, obj_name = name\<rparr> = (Inr e :: error + entity)"
    unfolding build_source_def by (elim and_thenE)
  then show ?thesis by auto
qed

lemma build_sample_reads:
  assumes "build_sample x = Inr e"
  shows "getitem x ''@id'' = Inr (obj_id e) \<and> (\<exists>n. getitem x ''name'' = Inr n)"
proof -
  from assms obtain i n name where "getitem x ''@id'' = Inr i" "getitem x ''name'' = Inr n"
    "Inr \<lparr>class_of = Sample_class, obj_id = i, obj_name = name\<rparr> = (Inr e :: error + entity)"
    unfolding build_sample_def by (elim and_thenE)
  then show ?thesis by auto
qed

lemma build_data_file_reads:
  assumes "build_data_file x = Inr e"
  shows "getitem x ''@id'' = Inr (obj_id e) \<and> (\<exists>n. getitem x ''name'' = Inr n)"
proof -
  from assms obtain i n where "getitem x ''@id'' = Inr i" "getitem x ''name'' = Inr n"
    "Inr \<lparr>class_of = DataFile_class, obj_id = i, obj_name = n\<rparr> = (Inr e :: error + entity)"
    unfolding build_data_file_def by (elim and_thenE)
  then show ?thesis by auto
qed

lemma build_material_reads:
  assumes "build_material x = Inr e"
  shows "getitem x ''@id'' = Inr (obj_id e) \<and> (\<exists>n. getitem x ''name'' = Inr n)"
proof -
  from assms obtain i n name where "getitem x ''name'' = Inr n" "getitem x ''@id'' = Inr i"
    "Inr \<lparr>class_of = Material_class, obj_id = i, obj_name = name\<rparr> = (Inr e :: error + entity)"
    unfolding build_material_def by (elim and_thenE)
  then show ?thesis by auto
qed

definition reads_id :: "(json \<Rightarrow> error + entity) \<Rightarrow> bool" where
  "reads_id build \<longleftrightarrow>
     (\<forall>x e. build x = Inr e \<longrightarrow>
        getitem x ''@id'' = Inr (obj_id e) \<and> (\<exists>n. getitem x ''name'' = Inr n))"

lemma reads_id_builders:
  "reads_id build_source" "reads_id build_sample" "reads_id build_data_file"
  "reads_id build_material"
  unfolding reads_id_def
  using build_source_reads build_sample_reads build_data_file_reads build_material_reads
  by blast+

lemma register_built_sound:
  assumes "reads_id build"
  shows "sound doc (\<lambda>x R. and_then (build x) (\<lambda>e. register (obj_id e) (write e) R))"
  unfolding sound_def
proof (intro allI impI)
  fix x R R'
  assume x: "x \<in> reach doc" and R: "registered R \<subseteq> declared_ids doc"
    and b: "and_then (build x) (\<lambda>e. register (obj_id e) (write e) R) = Inr R'"
  from b obtain e where e: "build x = Inr e" and r: "register (obj_id e) (write e) R = Inr R'"
    by (rule and_thenE)
  from assms e obtain n where i: "getitem x ''@id'' = Inr (obj_id e)"
    and n: "getitem x ''name'' = Inr n" unfolding reads_id_def by blast
  show "registered R' \<subseteq> declared_ids doc"
    by (rule register_declared [OF r R x i n]) simp
qed

lemma register_built_subscripts:
  assumes "reads_id build"
  shows "subscripts (\<lambda>x R. and_then (build x) (\<lambda>e. register (obj_id e) (write e) R))"
  unfolding subscripts_def
proof (intro allI impI)
  fix x R R'
  assume "and_then (build x) (\<lambda>e. register (obj_id e) (write e) R) = Inr R'"
  then obtain e where "build x = Inr e" by (rule and_thenE)
  with assms show "\<exists>k v. getitem x k = Inr v" unfolding reads_id_def by blast
qed

lemma register_study_process_sound: "sound doc register_study_process"
  unfolding sound_def
proof (intro allI impI)
  fix x R R'
  assume x: "x \<in> reach doc" and R: "registered R \<subseteq> declared_ids doc"
    and b: "register_study_process x R = Inr R'"
  from b obtain i where a: "study_process_preamble x R = Inr i"
    and r: "register i (\<lambda>R. R\<lparr>process_dict := (process_dict R)(i \<mapsto> ())\<rparr>) R = Inr R'"
    unfolding register_study_process_def by (elim and_thenE)
  from preamble_reads(1) [OF a] obtain p where i: "getitem x ''@id'' = Inr i"
    and p: "getitem x ''executesProtocol'' = Inr p" by blast
  show "registered R' \<subseteq> declared_ids doc"
    by (rule register_declared [OF r R x i p]) simp
qed

lemma register_assay_process_sound:
  "sound doc (register_assay_process assay_json technology_type_name)"
  unfolding sound_def
proof (intro allI impI)
  fix x R R'
  assume x: "x \<in> reach doc" and R: "registered R \<subseteq> declared_ids doc"
    and b: "register_assay_process assay_json technology_type_name x R = Inr R'"
  from b obtain i R1 where a: "assay_process_preamble technology_type_name x R = Inr i"
    and r: "register i (\<lambda>R. R\<lparr>process_dict := (process_dict R)(i \<mapsto> ())\<rparr>) R = Inr R1"
    and e: "(Inr R1 :: error + registry) = Inr R'"
    unfolding register_assay_process_def by (elim and_thenE)
  from preamble_reads(2) [OF a] obtain p where i: "getitem x ''@id'' = Inr i"
    and p: "getitem x ''executesProtocol'' = Inr p" by blast
  have "registered R1 \<subseteq> declared_ids doc"
    by (rule register_declared [OF r R x i p]) simp
  with e show "registered R' \<subseteq> declared_ids doc" by simp
qed

lemma lookup_sample_sound: "sound doc lookup_sample"
  unfolding sound_def lookup_sample_def
proof (intro allI impI)
  fix x R R'
  assume R: "registered R \<subseteq> declared_ids doc"
    and b: "and_then (getitem x ''@id'') (\<lambda>i.
     and_then (lookup (samples_dict R) i) (\<lambda>sample. Inr R)) = Inr R'"
  from b have "R' = R" by (elim and_thenE) simp
  with R show "registered R' \<subseteq> declared_ids doc" by simp
qed

lemma for_in_body_sound:
  assumes "sound doc body" and "subscripts body"
  shows "sound doc (\<lambda>x. for_in x key body)"
  unfolding sound_def
proof (intro allI impI)
  fix x R R'
  assume "x \<in> reach doc" "registered R \<subseteq> declared_ids doc" "for_in x key body R = Inr R'"
  then show "registered R' \<subseteq> declared_ids doc"
    using for_in_sound [of x key body R R' doc] assms by blast
qed

lemma for_in_body_subscripts: "subscripts (\<lambda>x. for_in x key body)"
  unfolding subscripts_def
proof (intro allI impI)
  fix x R R'
  assume "for_in x key body (R::registry) = Inr R'"
  then show "\<exists>k v. getitem x k = Inr v" by (rule for_in_subscripts)
qed

lemma subscripts_for_in_first:
  assumes "\<And>x R. body x R = and_then (for_in x k b R) (rest x R)"
  shows "subscripts body"
  unfolding subscripts_def
proof (intro allI impI)
  fix x R R'
  assume "body x R = Inr R'"
  then have "and_then (for_in x k b R) (rest x R) = Inr R'" by (simp add: assms)
  then obtain v where "for_in x k b R = Inr v" by (rule and_thenE)
  then show "\<exists>k v. getitem x k = Inr v" by (rule for_in_subscripts)
qed

lemma register_source_sound: "sound doc register_source" "subscripts register_source"
  unfolding register_source_def
  by (rule register_built_sound [OF reads_id_builders(1)],
      rule register_built_subscripts [OF reads_id_builders(1)])

lemma register_sample_sound: "sound doc register_sample" "subscripts register_sample"
  unfolding register_sample_def
  by (rule register_built_sound [OF reads_id_builders(2)],
      rule register_built_subscripts [OF reads_id_builders(2)])

lemma register_data_file_sound: "sound doc register_data_file" "subscripts register_data_file"
  unfolding register_data_file_def
  by (rule register_built_sound [OF reads_id_builders(3)],
      rule register_built_subscripts [OF reads_id_builders(3)])

lemma register_material_sound: "sound doc register_material" "subscripts register_material"
  unfolding register_material_def
  by (rule register_built_sound [OF reads_id_builders(4)],
      rule register_built_subscripts [OF reads_id_builders(4)])

lemma load_assay_sound: "sound doc load_assay"
  unfolding sound_def
proof (intro allI impI)
  fix x R R'
  assume x: "x \<in> reach doc" and R: "registered R \<subseteq> declared_ids doc"
    and b: "load_assay x R = Inr R'"
  from b obtain t technology_type_name R1 R2 m1 R3 R4 m2 R5 where
    1: "for_in x ''unitCategories'' register_unit R = Inr R1" and
    2: "for_in x ''dataFiles'' register_data_file (R1\<lparr>data_dict := Map.empty\<rparr>) = Inr R2" and
    m1: "getitem x ''materials'' = Inr m1" and
    3: "for_in m1 ''samples'' lookup_sample R2 = Inr R3" and
    4: "for_in x ''characteristicCategories'' register_category R3 = Inr R4" and
    m2: "getitem x ''materials'' = Inr m2" and
    5: "for_in m2 ''otherMaterials'' register_material
          (R4\<lparr>other_materials_dict := Map.empty\<rparr>) = Inr R5" and
    6: "for_in x ''processSequence'' (register_assay_process x technology_type_name) R5 = Inr R'"
    unfolding load_assay_def by (elim and_thenE)
  have rm1: "m1 \<in> reach doc" by (rule reach_getitem [OF x m1])
  have rm2: "m2 \<in> reach doc" by (rule reach_getitem [OF x m2])
  have R1: "registered R1 \<subseteq> declared_ids doc"
    by (rule for_in_sound [OF 1 x R register_unit_sound subscripts_register(2)])
  then have "registered (R1\<lparr>data_dict := Map.empty\<rparr>) \<subseteq> declared_ids doc" by simp
  then have R2: "registered R2 \<subseteq> declared_ids doc"
    by (rule for_in_sound [OF 2 x _ register_data_file_sound])
  have R3: "registered R3 \<subseteq> declared_ids doc"
    by (rule for_in_sound [OF 3 rm1 R2 lookup_sample_sound subscripts_register(6)])
  have R4: "registered R4 \<subseteq> declared_ids doc"
    by (rule for_in_sound [OF 4 x R3 register_category_sound subscripts_register(1)])
  then have "registered (R4\<lparr>other_materials_dict := Map.empty\<rparr>) \<subseteq> declared_ids doc" by simp
  then have R5: "registered R5 \<subseteq> declared_ids doc"
    by (rule for_in_sound [OF 5 rm2 _ register_material_sound])
  show "registered R' \<subseteq> declared_ids doc"
    by (rule for_in_sound [OF 6 x R5 register_assay_process_sound subscripts_process(2)])
qed

lemma load_assay_subscripts: "subscripts load_assay"
  by (rule subscripts_first) (simp add: load_assay_def)

lemma load_study_sound: "sound doc load_study"
  unfolding sound_def
proof (intro allI impI)
  fix x R R'
  assume x: "x \<in> reach doc" and R: "registered R \<subseteq> declared_ids doc"
    and b: "load_study x R = Inr R'"
  from b obtain R1 R2 R3 R4 m1 R5 m2 R6 R7 where
    1: "for_in x ''characteristicCategories'' register_category R = Inr R1" and
    2: "for_in x ''unitCategories'' register_unit R1 = Inr R2" and
    3: "for_in x ''protocols'' register_protocol R2 = Inr R3" and
    4: "for_in x ''factors'' register_factor R3 = Inr R4" and
    m1: "getitem x ''materials'' = Inr m1" and
    5: "for_in m1 ''sources'' register_source R4 = Inr R5" and
    m2: "getitem x ''materials'' = Inr m2" and
    6: "for_in m2 ''samples'' register_sample R5 = Inr R6" and
    7: "for_in x ''processSequence'' register_study_process R6 = Inr R7" and
    8: "for_in x ''assays'' load_assay R7 = Inr R'"
    unfolding load_study_def by (elim and_thenE)
  have rm1: "m1 \<in> reach doc" by (rule reach_getitem [OF x m1])
  have rm2: "m2 \<in> reach doc" by (rule reach_getitem [OF x m2])
  have R1: "registered R1 \<subseteq> declared_ids doc"
    by (rule for_in_sound [OF 1 x R register_category_sound subscripts_register(1)])
  have R2: "registered R2 \<subseteq> declared_ids doc"
    by (rule for_in_sound [OF 2 x R1 register_unit_sound subscripts_register(2)])
  have R3: "registered R3 \<subseteq> declared_ids doc"
    by (rule for_in_sound [OF 3 x R2 register_protocol_sound subscripts_register(5)])
  have R4: "registered R4 \<subseteq> declared_ids doc"
    by (rule for_in_sound [OF 4 x R3 register_factor_sound subscripts_register(4)])
  have R5: "registered R5 \<subseteq> declared_ids doc"
    by (rule for_in_sound [OF 5 rm1 R4 register_source_sound])
  have R6: "registered R6 \<subseteq> declared_ids doc"
    by (rule for_in_sound [OF 6 rm2 R5 register_sample_sound])
  have R7: "registered R7 \<subseteq> declared_ids doc"
    by (rule for_in_sound [OF 7 x R6 register_study_process_sound subscripts_process(1)])
  show "registered R' \<subseteq> declared_ids doc"
    by (rule for_in_sound [OF 8 x R7 load_assay_sound load_assay_subscripts])
qed

lemma load_study_subscripts: "subscripts load_study"
  by (rule subscripts_for_in_first) (simp add: load_study_def)

lemma load_sound:
  assumes "load doc = Inr R"
  shows "registered R \<subseteq> declared_ids doc"
proof -
  from assms obtain R0 R1 where
    t: "for_in doc ''ontologySourceReferences'' register_term_source empty_registry = Inr R0" and
    1: "for_in doc ''studies''
          (\<lambda>study_json. for_in study_json ''assays''
             (\<lambda>assay_json. for_in assay_json ''characteristicCategories'' register_category))
          R0 = Inr R1" and
    2: "for_in doc ''studies'' load_study R1 = Inr R"
    unfolding load_def by (elim and_thenE)
  have 0: "registered empty_registry \<subseteq> declared_ids doc"
    by (simp add: empty_registry_def)
  have R0: "registered R0 \<subseteq> declared_ids doc"
    by (rule for_in_sound [OF t reach.root 0 register_term_source_sound subscripts_register(7)])
  have a: "sound doc (\<lambda>assay_json. for_in assay_json ''characteristicCategories'' register_category)"
    by (rule for_in_body_sound [OF register_category_sound subscripts_register(1)])
  have s: "sound doc (\<lambda>study_json. for_in study_json ''assays''
             (\<lambda>assay_json. for_in assay_json ''characteristicCategories'' register_category))"
    by (rule for_in_body_sound [OF a for_in_body_subscripts])
  have R1: "registered R1 \<subseteq> declared_ids doc"
    by (rule for_in_sound [OF 1 reach.root R0 s for_in_body_subscripts])
  show ?thesis
    by (rule for_in_sound [OF 2 reach.root R1 load_study_sound load_study_subscripts])
qed

lemma declared_ids_collected: "declared_ids doc \<subseteq> set (collect_object_refs doc [])"
  unfolding declared_ids_def using declared_collected by blast

text \<open>The dictionaries after loading \<open>study_doc\<close>.\<close>

definition study_registry :: registry where
  "study_registry =
     \<lparr>samples_dict = [JStr ''#sample/1'' \<mapsto>
         \<lparr>class_of = Sample_class, obj_id = JStr ''#sample/1'', obj_name = JStr ''liver1''\<rparr>],
      sources_dict = [JStr ''#source/1'' \<mapsto>
         \<lparr>class_of = Source_class, obj_id = JStr ''#source/1'', obj_name = JStr ''culture1''\<rparr>],
      categories_dict = Map.empty,
      protocols_dict = [JStr ''#protocol/1'' \<mapsto> JStr ''sample collection''],
      factors_dict = Map.empty, parameters_dict = Map.empty, units_dict = Map.empty,
      process_dict = [JStr ''#process/1'' \<mapsto> ()],
      data_dict = Map.empty, other_materials_dict = Map.empty,
      term_source_dict = [JStr '''' \<mapsto> ()],
      registered = {JStr ''#process/1'', JStr ''#sample/1'', JStr ''#source/1'',
                    JStr ''#protocol/1''}\<rparr>"

lemma load_status_doc: "load status_doc = Inr empty_registry"
  by (simp add: load_def for_in_def status_doc_def and_then_def)

lemma collect_status_doc: "collect_object_refs status_doc [] = [JStr ''#status/1'']"
  by (simp add: status_doc_def keys_def values_of_def len_set_keys_def)

lemma load_study_doc: "load study_doc = Inr study_registry"
  by (simp add: load_def for_in_def study_doc_def and_then_def load_study_def
                register_protocol_def register_source_def register_sample_def
                register_study_process_def study_process_preamble_def read_comments_def
                read_optional_def register_def build_source_def build_sample_def
                lookup_def study_resolve_def resolve_process_io_def resolve_study_io_eq
                empty_registry_def study_registry_def annotation_ex_def)

text \<open>
  C7 (as stated): the identifiers the walker collects as declarations are the identifiers
  of the registry after a load. Loading \<open>status_doc\<close> completes with all ten
  dictionaries empty, while the walker collects \<^verbatim>\<open>#status/1\<close>, the identifier of the
  status annotation of the publication: an object with \<^verbatim>\<open>@id\<close> and other keys that
  \<^verbatim>\<open>load\<close> turns into an attribute of the publication without registering it.
\<close>

theorem declaration_not_registered:
  "load status_doc = Inr empty_registry \<and> registered empty_registry = {} \<and>
   collect_object_refs status_doc [] = [JStr ''#status/1'']"
  by (simp add: load_status_doc collect_status_doc empty_registry_def)

text \<open>
  C7 (amended): for every document on which \<^verbatim>\<open>load\<close> completes, every identifier written
  into one of the ten dictionaries is among the identifiers the walker collects as
  declarations. The walker may collect more: the identifiers of objects that carry
  \<^verbatim>\<open>@id\<close> next to other keys and that \<^verbatim>\<open>load\<close> does not register.
\<close>

theorem registered_ids_are_declared:
  "load doc = Inr R \<Longrightarrow> registered R \<subseteq> set (collect_object_refs doc [])"
  using load_sound [of doc R] declared_ids_collected [of doc] by blast

theorem registered_ids_are_declared_witness:
  "load study_doc = Inr study_registry \<and>
   registered study_registry =
     {JStr ''#process/1'', JStr ''#sample/1'', JStr ''#source/1'', JStr ''#protocol/1''} \<and>
   registered study_registry \<subseteq> set (collect_object_refs study_doc [])"
  using registered_ids_are_declared [OF load_study_doc] load_study_doc
  by (simp add: study_registry_def)

subsection \<open>The walk of a study process\<close>




subsection \<open>References that do not resolve\<close>

















end
